theory Spec2Isabelle
  imports
    Complex_Main
    "HOL-Library.Char_ord"
    "HOL-Library.List_Lexorder"
    "HOL-Library.Product_Lexorder"
    "HOL-Library.Option_ord"
    "HOL-Library.Sublist"
    "HOL-Library.AList"
    "HOL-Library.Word"
begin

section \<open>Cells, columns and the data-frame operations the pipeline uses\<close>

text \<open>
  Every column of a data frame is nullable, so a cell of type \<open>'a\<close> is an \<open>'a option\<close> and
  \<open>None\<close> is the null. A calendar date is the triple (year, month, day); with the
  lexicographic order on products this is the chronological order, and with the order on
  \<open>option\<close> the null is below every date, which is where an ascending sort with the
  default \<open>nulls_last=False\<close> puts it. An \<open>Int32\<close> cell is a 32-bit word, a \<open>Float64\<close>
  cell is idealised as an exact rational (no NaN, no infinities, no binary rounding).
\<close>

type_synonym date = "int \<times> int \<times> int"
type_synonym int32 = "32 word"

definition dt_year :: "date option \<Rightarrow> int option" where
  "dt_year d = map_option fst d"

definition dt_month :: "date option \<Rightarrow> int option" where
  "dt_month d = map_option (fst \<circ> snd) d"

text \<open>\<open>expr.fill_null(v)\<close>: a null cell becomes \<open>v\<close>, any other cell is kept.\<close>

definition fill_null :: "'a \<Rightarrow> 'a option \<Rightarrow> 'a option" where
  "fill_null v c = (case c of None \<Rightarrow> Some v | Some x \<Rightarrow> Some x)"

text \<open>
  \<open>a | b\<close> on Boolean columns is the three-valued (Kleene) disjunction: true as soon as one
  side is true, null when no side is true and one is null.
\<close>

fun kleene_or :: "bool option \<Rightarrow> bool option \<Rightarrow> bool option" where
  "kleene_or (Some True) _ = Some True"
| "kleene_or _ (Some True) = Some True"
| "kleene_or (Some False) (Some False) = Some False"
| "kleene_or _ _ = None"

text \<open>\<open>col.list.contains(s)\<close>: null on a null list.\<close>

definition list_contains :: "string \<Rightarrow> string list option \<Rightarrow> bool option" where
  "list_contains s l = map_option (\<lambda>xs. s \<in> set xs) l"

text \<open>\<open>expr >= n\<close> on an integer column: null on a null cell.\<close>

definition ge_lit :: "int option \<Rightarrow> int \<Rightarrow> bool option" where
  "ge_lit c n = map_option (\<lambda>x. n \<le> x) c"

text \<open>\<open>frame.filter(p)\<close> keeps the rows where the predicate is true; false and null both drop.\<close>

definition filter_rows :: "('r \<Rightarrow> bool option) \<Rightarrow> 'r list \<Rightarrow> 'r list" where
  "filter_rows p rows = filter (\<lambda>r. p r = Some True) rows"

text \<open>
  \<open>left.join(right, on=key, how="left")\<close>: every left row is paired with each right row
  of the same non-null key, or once with no right row when there is none. A null key
  matches nothing (the library's default \<open>nulls_equal=False\<close>).
\<close>

definition matches :: "('r \<Rightarrow> 'k option) \<Rightarrow> 'k option \<Rightarrow> 'r list \<Rightarrow> 'r list" where
  "matches rkey k right = filter (\<lambda>r. k \<noteq> None \<and> rkey r = k) right"

definition left_join ::
  "('l \<Rightarrow> 'k option) \<Rightarrow> ('r \<Rightarrow> 'k option) \<Rightarrow> 'l list \<Rightarrow> 'r list \<Rightarrow> ('l \<times> 'r option) list" where
  "left_join lkey rkey left right =
     concat (map (\<lambda>l. case matches rkey (lkey l) right of
                         [] \<Rightarrow> [(l, None)]
                       | ms \<Rightarrow> map (\<lambda>r. (l, Some r)) ms) left)"

text \<open>
  \<open>frame.group_by(key)\<close>: the rows are partitioned by the value of the key, nulls being a
  key value like any other. The library leaves the order of the groups open; the model
  lists them in order of first appearance.
\<close>

function group_by :: "('r \<Rightarrow> 'k) \<Rightarrow> 'r list \<Rightarrow> ('k \<times> 'r list) list" where
  "group_by key [] = []"
| "group_by key (r # rs) =
     (key r, r # filter (\<lambda>x. key x = key r) rs)
       # group_by key (filter (\<lambda>x. key x \<noteq> key r) rs)"
  by pat_completeness auto
termination
  by (relation "measure (\<lambda>(key, rs). length rs)") (auto simp: less_Suc_eq_le)

section \<open>Errors and the text-conversion routines of the data-frame library\<close>

datatype error =
    ComputeError
  | InvalidOperationError
  | ValueError
  | FileExistsError
  | NotADirectoryError
  | IsADirectoryError
  | FileNotFoundError

definition bind_err :: "error + 'a \<Rightarrow> ('a \<Rightarrow> error + 'b) \<Rightarrow> error + 'b" where
  "bind_err m f = (case m of Inl e \<Rightarrow> Inl e | Inr x \<Rightarrow> f x)"

text \<open>A query fails as a whole as soon as one of its cells fails.\<close>

fun collect :: "(error + 'a) list \<Rightarrow> error + 'a list" where
  "collect [] = Inr []"
| "collect (x # xs) =
     (case x of
        Inl e \<Rightarrow> Inl e
      | Inr v \<Rightarrow> (case collect xs of Inl e \<Rightarrow> Inl e | Inr vs \<Rightarrow> Inr (v # vs)))"

text \<open>
  Which texts the library reads as a date (for a given format), as a float or as a 32-bit
  integer is the library's business: these routines are parameters of the model, and so is
  the tie-breaking rule that \<open>round\<close> applies when none is passed. \<open>None\<close> means that
  the text does not convert.
\<close>

datatype round_mode = half_to_even | half_away_from_zero

record library =
  to_date :: "string \<Rightarrow> string \<Rightarrow> date option"
  to_f64 :: "string \<Rightarrow> rat option"
  to_i32 :: "string \<Rightarrow> int32 option"
  round_mode :: round_mode

text \<open>\<open>col.str.to_date(fmt)\<close> is strict: null stays null, an unreadable text raises.\<close>

definition str_to_date :: "library \<Rightarrow> string \<Rightarrow> string option \<Rightarrow> error + date option" where
  "str_to_date L fmt c =
     (case c of
        None \<Rightarrow> Inr None
      | Some s \<Rightarrow> (case to_date L fmt s of None \<Rightarrow> Inl ComputeError | Some d \<Rightarrow> Inr (Some d)))"

text \<open>\<open>col.cast(pl.Float64)\<close> on text is strict as well.\<close>

definition cast_f64 :: "library \<Rightarrow> string option \<Rightarrow> error + rat option" where
  "cast_f64 L c =
     (case c of
        None \<Rightarrow> Inr None
      | Some s \<Rightarrow> (case to_f64 L s of None \<Rightarrow> Inl InvalidOperationError | Some x \<Rightarrow> Inr (Some x)))"

text \<open>\<open>col.cast(pl.Int32, strict=False)\<close> on text: what does not convert becomes null.\<close>

definition cast_i32_lenient :: "library \<Rightarrow> string option \<Rightarrow> int32 option" where
  "cast_i32_lenient L c = Option.bind c (to_i32 L)"

text \<open>\<open>col.str.strip_chars()\<close> removes leading and trailing white space.\<close>

definition is_space :: "char \<Rightarrow> bool" where
  "is_space c = (c \<in> {CHR '' '', CHR 0x09, CHR 0x0A, CHR 0x0B, CHR 0x0C, CHR 0x0D})"

definition strip_chars :: "string option \<Rightarrow> string option" where
  "strip_chars c = map_option (\<lambda>s. rev (dropWhile is_space (rev (dropWhile is_space s)))) c"

text \<open>\<open>expr.round(decimals)\<close>: to the nearest multiple of \<open>10 ^ - decimals\<close>.\<close>

definition round_int :: "round_mode \<Rightarrow> rat \<Rightarrow> int" where
  "round_int mode y =
     (let f = \<lfloor>y\<rfloor>; r = y - of_int f
      in if r < 1 / 2 then f
         else if 1 / 2 < r then f + 1
         else (case mode of
                 half_to_even \<Rightarrow> (if even f then f else f + 1)
               | half_away_from_zero \<Rightarrow> (if 0 \<le> y then f + 1 else f)))"

definition round_f64 :: "round_mode \<Rightarrow> nat \<Rightarrow> rat \<Rightarrow> rat" where
  "round_f64 mode decimals x = of_int (round_int mode (x * 10 ^ decimals)) / 10 ^ decimals"

text \<open>Comparisons with a literal and \<open>is_not_null\<close>; a comparison is null on a null cell.\<close>

definition ge_str :: "string option \<Rightarrow> string \<Rightarrow> bool option" where
  "ge_str c s = map_option (\<lambda>x. s \<le> x) c"

definition gt_lit :: "rat option \<Rightarrow> rat \<Rightarrow> bool option" where
  "gt_lit c x = map_option (\<lambda>y. x < y) c"

definition eq_lit :: "int32 option \<Rightarrow> int32 \<Rightarrow> bool option" where
  "eq_lit c n = map_option (\<lambda>x. x = n) c"

definition is_not_null :: "'a option \<Rightarrow> bool option" where
  "is_not_null c = Some (c \<noteq> None)"

text \<open>\<open>pl.any_horizontal(a, b)\<close> is the Kleene disjunction of its columns.\<close>

definition any_horizontal :: "bool option \<Rightarrow> bool option \<Rightarrow> bool option" where
  "any_horizontal a b = kleene_or a b"

text \<open>
  \<open>col.dt.weekday()\<close>: the ISO weekday, Monday 1 to Sunday 7, from the number of days
  since 1970-01-01 (a Thursday).
\<close>

definition days_from_civil :: "date \<Rightarrow> int" where
  "days_from_civil ymd =
     (case ymd of (y, m, d) \<Rightarrow>
        let y' = (if m \<le> 2 then y - 1 else y);
            era = y' div 400;
            yoe = y' - era * 400;
            doy = (153 * (if 2 < m then m - 3 else m + 9) + 2) div 5 + d - 1;
            doe = yoe * 365 + yoe div 4 - yoe div 100 + doy
        in era * 146097 + doe - 719468)"

definition dt_weekday :: "date option \<Rightarrow> int option" where
  "dt_weekday d = map_option (\<lambda>x. (days_from_civil x + 3) mod 7 + 1) d"

subsection \<open>A reference instance of the conversion routines\<close>

text \<open>
  For evaluating the transforms on concrete frames: dates with zero-padded fields in the
  two formats the pipeline uses, plain decimal literals with an optional minus sign, and
  rounding of ties to even.
\<close>

definition is_digit :: "char \<Rightarrow> bool" where
  "is_digit c = (CHR ''0'' \<le> c \<and> c \<le> CHR ''9'')"

definition parse_nat :: "string \<Rightarrow> nat option" where
  "parse_nat s =
     (if s \<noteq> [] \<and> list_all is_digit s
      then Some (foldl (\<lambda>a c. 10 * a + (of_char c - 48)) 0 s) else None)"

definition parse_int :: "string \<Rightarrow> int option" where
  "parse_int s =
     (case s of
        [] \<Rightarrow> None
      | c # t \<Rightarrow> if c = CHR ''-'' then map_option (\<lambda>n. - int n) (parse_nat t)
                 else map_option int (parse_nat s))"

definition parse_i32 :: "string \<Rightarrow> int32 option" where
  "parse_i32 s =
     Option.bind (parse_int s)
       (\<lambda>i. if - (2 ^ 31) \<le> i \<and> i < 2 ^ 31 then Some (word_of_int i) else None)"

definition parse_unsigned_decimal :: "string \<Rightarrow> rat option" where
  "parse_unsigned_decimal s =
     (let ip = takeWhile (\<lambda>c. c \<noteq> CHR ''.'') s; rest = dropWhile (\<lambda>c. c \<noteq> CHR ''.'') s
      in case parse_nat ip of
           None \<Rightarrow> None
         | Some n \<Rightarrow>
             (case rest of
                [] \<Rightarrow> Some (of_nat n)
              | _ # fp \<Rightarrow> map_option (\<lambda>f. of_nat n + of_nat f / 10 ^ length fp) (parse_nat fp)))"

definition parse_decimal :: "string \<Rightarrow> rat option" where
  "parse_decimal s =
     (case s of
        [] \<Rightarrow> None
      | c # t \<Rightarrow> if c = CHR ''-'' then map_option uminus (parse_unsigned_decimal t)
                 else parse_unsigned_decimal s)"

definition days_in_month :: "int \<Rightarrow> int \<Rightarrow> int" where
  "days_in_month y m =
     (if m = 2 then
        (if y mod 400 = 0 then 29 else if y mod 100 = 0 then 28
         else if y mod 4 = 0 then 29 else 28)
      else if m \<in> {4, 6, 9, 11} then 30 else 31)"

definition make_date :: "string \<Rightarrow> string \<Rightarrow> string \<Rightarrow> date option" where
  "make_date ys ms ds =
     (case (parse_nat ys, parse_nat ms, parse_nat ds) of
        (Some y, Some m, Some d) \<Rightarrow>
          if 1 \<le> m \<and> m \<le> 12 \<and> 1 \<le> d \<and> int d \<le> days_in_month (int y) (int m)
          then Some (int y, int m, int d) else None
      | _ \<Rightarrow> None)"

definition parse_date :: "string \<Rightarrow> string \<Rightarrow> date option" where
  "parse_date fmt s =
     (if fmt = ''%Y-%m-%d'' then
        (if length s = 10 \<and> s ! 4 = CHR ''-'' \<and> s ! 7 = CHR ''-''
         then make_date (take 4 s) (take 2 (drop 5 s)) (drop 8 s) else None)
      else if fmt = ''%m/%d/%Y'' then
        (if length s = 10 \<and> s ! 2 = CHR ''/'' \<and> s ! 5 = CHR ''/''
         then make_date (drop 6 s) (take 2 s) (take 2 (drop 3 s)) else None)
      else None)"

definition reference_library :: library where
  "reference_library =
     \<lparr> to_date = parse_date, to_f64 = parse_decimal, to_i32 = parse_i32,
       round_mode = half_to_even \<rparr>"

section \<open>The file system and \<open>clean_output_directory\<close>\<close>

text \<open>
  A path is its list of components, a file system an association list from paths to
  nodes; the root always exists and is a directory. An operation takes the file system
  and returns the new one, or the error it raises.
\<close>

type_synonym path = "string list"

datatype 'c node = Dir | File 'c

type_synonym 'c fs = "(path \<times> 'c node) list"

type_synonym 'c step = "'c fs \<Rightarrow> error + 'c fs"

definition lookup :: "'c fs \<Rightarrow> path \<Rightarrow> 'c node option" where
  "lookup fs p = (if p = [] then Some Dir else map_of fs p)"

definition path_exists :: "'c fs \<Rightarrow> path \<Rightarrow> bool" where
  "path_exists fs p = (lookup fs p \<noteq> None)"

definition is_dir :: "'c fs \<Rightarrow> path \<Rightarrow> bool" where
  "is_dir fs p = (lookup fs p = Some Dir)"

definition is_file :: "'c fs \<Rightarrow> path \<Rightarrow> bool" where
  "is_file fs p = (case lookup fs p of Some (File c) \<Rightarrow> True | _ \<Rightarrow> False)"

text \<open>
  A file system is well formed when every ancestor of an entry is a directory, as in any
  real file system.
\<close>

definition wf_fs :: "'c fs \<Rightarrow> bool" where
  "wf_fs fs = list_all (\<lambda>(q, n). list_all (\<lambda>p. p = q \<or> is_dir fs p) (prefixes q)) fs"

text \<open>\<open>shutil.rmtree(p)\<close> removes the directory and everything below it.\<close>

definition rmtree :: "path \<Rightarrow> 'c fs \<Rightarrow> 'c fs" where
  "rmtree p fs = filter (\<lambda>(q, n). \<not> prefix p q) fs"

text \<open>
  \<open>p.mkdir(parents=True, exist_ok=True)\<close> creates the directory and its missing
  ancestors; it raises when the path, or one of its ancestors, is a file.
\<close>

definition mkdir_parents :: "path \<Rightarrow> 'c step" where
  "mkdir_parents p fs =
     (if is_file fs p then Inl FileExistsError
      else if list_ex (is_file fs) (prefixes p) then Inl NotADirectoryError
      else Inr (fold (\<lambda>q. AList.update q Dir) (tl (prefixes p)) fs))"

definition clean_output_directory :: "path \<Rightarrow> 'c step" where
  "clean_output_directory path fs =
     mkdir_parents path (if path_exists fs path \<and> is_dir fs path then rmtree path fs else fs)"

text \<open>Writing one file: its directory has to exist, and the path must not be a directory.\<close>

definition write_file :: "path \<Rightarrow> 'c \<Rightarrow> 'c step" where
  "write_file p c fs =
     (if is_dir fs p then Inl IsADirectoryError
      else if \<not> is_dir fs (butlast p) then Inl FileNotFoundError
      else Inr (AList.update p (File c) fs))"

text \<open>Statements run one after the other; the first error ends the run.\<close>

fun run :: "'c step list \<Rightarrow> 'c step" where
  "run [] fs = Inr fs"
| "run (s # ss) fs = bind_err (s fs) (run ss)"

text \<open>
  \<open>df.write_parquet(target, partition_by=cols)\<close> writes one file per partition into
  subdirectories of the target that it creates. Which files these are (their paths
  relative to the target, and their contents) is the storage library's business, given by
  the parameter \<open>files\<close>.
\<close>

definition write_partitioned :: "path \<Rightarrow> (path \<times> 'c) list \<Rightarrow> 'c step list" where
  "write_partitioned target files =
     concat (map (\<lambda>(rel, c). [mkdir_parents (target @ butlast rel), write_file (target @ rel) c])
                 files)"

section \<open>Silver layer: standardization\<close>

text \<open>
  Each transform is modelled on an in-memory frame, the way \<open>run_pipeline\<close> calls it; the
  frame is a list of rows. The lazy query \<open>q.collect()\<close> is a function of the input
  frame that returns the standardized frame or the error the library raises.
\<close>

subsection \<open>Collisions\<close>

text \<open>
  A metric cell arrives as an integer (a column whose type was inferred) or as text. The
  columns are named as after the configured renaming; \<open>metric_cols\<close> is the configured list
  of metric columns.
\<close>

datatype raw = Int64 int | Str string

record collision_raw =
  CRASH_DATE :: "string option"
  BOROUGH :: "string option"
  ZIP_CODE :: "string option"
  raw_metric :: "string \<Rightarrow> raw option"

record collision_silver =
  cs_crash_date :: "string option"
  cs_borough :: "string option"
  cs_zip_code :: "string option"
  cs_metrics :: "(string \<times> int32 option) list"
  cs_date :: "date option"
  cs_is_weekend :: "bool option"
  cs_year :: "int option"
  cs_month :: "int option"

text \<open>\<open>col.cast(pl.Int32)\<close>, strict: out of range or unreadable raises.\<close>

definition cast_i32 :: "library \<Rightarrow> raw option \<Rightarrow> error + int32 option" where
  "cast_i32 L c =
     (case c of
        None \<Rightarrow> Inr None
      | Some (Int64 i) \<Rightarrow>
          if - (2 ^ 31) \<le> i \<and> i < 2 ^ 31 then Inr (Some (word_of_int i))
          else Inl InvalidOperationError
      | Some (Str s) \<Rightarrow>
          (case to_i32 L s of None \<Rightarrow> Inl InvalidOperationError | Some v \<Rightarrow> Inr (Some v)))"

definition collisions_columns ::
  "library \<Rightarrow> string list \<Rightarrow> collision_raw \<Rightarrow> error + collision_silver" where
  "collisions_columns L metric_cols r =
     bind_err (str_to_date L ''%m/%d/%Y'' (CRASH_DATE r)) (\<lambda>d.
     bind_err (collect (map (\<lambda>m. bind_err (cast_i32 L (fill_null (Int64 0) (raw_metric r m)))
                                     (\<lambda>v. Inr (m, v))) metric_cols)) (\<lambda>ms.
     Inr \<lparr> cs_crash_date = CRASH_DATE r,
           cs_borough = fill_null ''UNKNOWN'' (BOROUGH r),
           cs_zip_code = ZIP_CODE r,
           cs_metrics = ms,
           cs_date = d,
           cs_is_weekend = ge_lit (dt_weekday d) 6,
           cs_year = dt_year d,
           cs_month = dt_month d \<rparr>))"

definition collisions_filter :: "collision_raw list \<Rightarrow> collision_raw list" where
  "collisions_filter lf = filter_rows (\<lambda>r. is_not_null (CRASH_DATE r)) lf"

definition collisions_query ::
  "library \<Rightarrow> string list \<Rightarrow> collision_raw list \<Rightarrow> error + collision_silver list" where
  "collisions_query L metric_cols lf =
     collect (map (collisions_columns L metric_cols) (collisions_filter lf))"

subsection \<open>Holidays\<close>

record holiday_raw =
  hr_date :: "string option"
  hr_name :: "string option"
  hr_types :: "string list option"

text \<open>The rows of the standardized holidays and weather tables.\<close>

record holiday =
  h_date :: "date option"
  h_holiday_name :: "string option"
  h_types :: "string list option"
  h_year :: "int option"
  h_month :: "int option"

record weather =
  w_date :: "date option"
  w_temp_max_c :: "rat option"
  w_temp_min_c :: "rat option"
  w_precipitation_mm :: "rat option"
  w_snow_mm :: "rat option"
  w_is_foggy :: "bool option"
  w_has_rain :: "bool option"
  w_has_snow :: "bool option"
  w_year :: "int option"
  w_month :: "int option"

definition holidays_columns :: "library \<Rightarrow> holiday_raw \<Rightarrow> error + holiday" where
  "holidays_columns L r =
     bind_err (str_to_date L ''%Y-%m-%d'' (hr_date r)) (\<lambda>d.
     Inr \<lparr> h_date = d, h_holiday_name = hr_name r, h_types = hr_types r,
           h_year = dt_year d, h_month = dt_month d \<rparr>)"

text \<open>\<open>frame.unique()\<close> keeps one copy of each row; which one is left open by the library.\<close>

definition unique :: "'r list \<Rightarrow> 'r list" where
  "unique rows = remdups rows"

definition holidays_query :: "library \<Rightarrow> holiday_raw list \<Rightarrow> error + holiday list" where
  "holidays_query L lf =
     bind_err (collect (map (holidays_columns L) lf)) (\<lambda>rows. Inr (unique rows))"

subsection \<open>Weather\<close>

text \<open>Every raw weather column is text.\<close>

record weather_raw =
  DATE :: "string option"
  TMAX :: "string option"
  TMIN :: "string option"
  PRCP :: "string option"
  SNOW :: "string option"
  WT01 :: "string option"
  WT02 :: "string option"

definition weather_columns :: "library \<Rightarrow> weather_raw \<Rightarrow> error + weather" where
  "weather_columns L r =
     bind_err (str_to_date L ''%Y-%m-%d'' (DATE r)) (\<lambda>d.
     bind_err (cast_f64 L (strip_chars (TMAX r))) (\<lambda>tmax.
     bind_err (cast_f64 L (strip_chars (TMIN r))) (\<lambda>tmin.
     bind_err (cast_f64 L (strip_chars (PRCP r))) (\<lambda>prcp.
     bind_err (cast_f64 L (strip_chars (SNOW r))) (\<lambda>snow.
     Inr \<lparr> w_date = d,
           w_temp_max_c = map_option (\<lambda>x. round_f64 (round_mode L) 1 (x / 10)) tmax,
           w_temp_min_c = map_option (\<lambda>x. round_f64 (round_mode L) 1 (x / 10)) tmin,
           w_precipitation_mm = map_option (\<lambda>x. x / 10) prcp,
           w_snow_mm = snow,
           w_is_foggy =
             fill_null False
               (any_horizontal (eq_lit (cast_i32_lenient L (strip_chars (WT01 r))) 1)
                               (eq_lit (cast_i32_lenient L (strip_chars (WT02 r))) 1)),
           w_has_rain = fill_null False (gt_lit prcp 0),
           w_has_snow = fill_null False (gt_lit snow 0),
           w_year = dt_year d,
           w_month = dt_month d \<rparr>)))))"

definition weather_filter :: "weather_raw list \<Rightarrow> weather_raw list" where
  "weather_filter lf =
     filter_rows (\<lambda>r. is_not_null (DATE r))
       (filter_rows (\<lambda>r. ge_str (DATE r) ''2020-01-01'') lf)"

definition weather_query :: "library \<Rightarrow> weather_raw list \<Rightarrow> error + weather list" where
  "weather_query L lf = collect (map (weather_columns L) (weather_filter lf))"

subsection \<open>The three transforms with their persistence\<close>

text \<open>
  Each transform collects its query, clears the output directory, writes the partitioned
  table and returns the frame with the path. The parameter \<open>parquet\<close> gives the files the
  storage library writes for a frame and a list of partition columns.
\<close>

definition process_collisions ::
  "library \<Rightarrow> string list \<Rightarrow> (string list \<Rightarrow> collision_silver list \<Rightarrow> (path \<times> 'c) list) \<Rightarrow>
   collision_raw list \<Rightarrow> path \<Rightarrow> 'c fs \<Rightarrow> error + (collision_silver list \<times> path) \<times> 'c fs" where
  "process_collisions L metric_cols parquet input_data output_path fs =
     bind_err (collisions_query L metric_cols input_data) (\<lambda>df_silver.
     bind_err (run (clean_output_directory output_path
                    # write_partitioned output_path (parquet [''year'', ''month''] df_silver)) fs)
       (\<lambda>fs'. Inr ((df_silver, output_path), fs')))"

definition process_holidays ::
  "library \<Rightarrow> (string list \<Rightarrow> holiday list \<Rightarrow> (path \<times> 'c) list) \<Rightarrow>
   holiday_raw list \<Rightarrow> path \<Rightarrow> 'c fs \<Rightarrow> error + (holiday list \<times> path) \<times> 'c fs" where
  "process_holidays L parquet input_data output_path fs =
     bind_err (holidays_query L input_data) (\<lambda>df_silver.
     bind_err (run (clean_output_directory output_path
                    # write_partitioned output_path (parquet [''year''] df_silver)) fs)
       (\<lambda>fs'. Inr ((df_silver, output_path), fs')))"

definition process_weather ::
  "library \<Rightarrow> (string list \<Rightarrow> weather list \<Rightarrow> (path \<times> 'c) list) \<Rightarrow>
   weather_raw list \<Rightarrow> path \<Rightarrow> 'c fs \<Rightarrow> error + (weather list \<times> path) \<times> 'c fs" where
  "process_weather L parquet input_data output_path fs =
     bind_err (weather_query L input_data) (\<lambda>df_silver.
     bind_err (run (clean_output_directory output_path
                    # write_partitioned output_path (parquet [''year'', ''month''] df_silver)) fs)
       (\<lambda>fs'. Inr ((df_silver, output_path), fs')))"

section \<open>Gold layer: enrichment and aggregation\<close>

definition METRIC_COLS :: "string list" where
  "METRIC_COLS =
     [''number_of_persons_injured'', ''number_of_persons_killed'',
      ''number_of_pedestrians_injured'', ''number_of_pedestrians_killed'',
      ''number_of_cyclist_injured'', ''number_of_cyclist_killed'',
      ''number_of_motorist_injured'', ''number_of_motorist_killed'']"

text \<open>
  A row of the standardized collisions table with the columns the gold layer reads; its
  metric columns are looked up by name.
\<close>

record collision =
  c_date :: "date option"
  c_borough :: "string option"
  c_zip_code :: "string option"
  c_is_weekend :: "bool option"
  c_metric :: "string \<Rightarrow> int32 option"

text \<open>The projection \<open>weather_clean\<close> of \<open>_enrich_collisions\<close>.\<close>

record weather_clean =
  wc_date :: "date option"
  wc_temp_max_c :: "rat option"
  wc_temp_min_c :: "rat option"
  wc_has_rain :: "bool option"
  wc_has_snow :: "bool option"
  wc_is_foggy :: "bool option"

definition select_weather_clean :: "weather \<Rightarrow> weather_clean" where
  "select_weather_clean w =
     \<lparr> wc_date = w_date w, wc_temp_max_c = w_temp_max_c w, wc_temp_min_c = w_temp_min_c w,
       wc_has_rain = w_has_rain w, wc_has_snow = w_has_snow w, wc_is_foggy = w_is_foggy w \<rparr>"

text \<open>A row of the enriched table: the collision's columns, the joined ones, the derived ones.\<close>

record enriched =
  date :: "date option"
  borough :: "string option"
  zip_code :: "string option"
  is_weekend :: "bool option"
  metric :: "string \<Rightarrow> int32 option"
  holiday_name :: "string option"
  types :: "string list option"
  temp_max_c :: "rat option"
  temp_min_c :: "rat option"
  has_rain :: "bool option"
  has_snow :: "bool option"
  is_foggy :: "bool option"
  high_impact_holiday :: "bool option"
  partial_impact_holiday :: "bool option"
  low_impact_holiday :: "bool option"
  max_temp :: "rat option"
  min_temp :: "rat option"

text \<open>
  The \<open>with_columns\<close> step of \<open>_enrich_collisions\<close>, on one row of the double join: the
  columns of a right table are null where the join found no row.
\<close>

definition with_columns :: "(collision \<times> holiday option) \<times> weather_clean option \<Rightarrow> enriched" where
  "with_columns j =
     (case j of ((c, h), w) \<Rightarrow>
        let j_holiday_name = Option.bind h h_holiday_name;
            j_types = Option.bind h h_types;
            j_temp_max_c = Option.bind w wc_temp_max_c;
            j_temp_min_c = Option.bind w wc_temp_min_c
        in \<lparr> date = c_date c, borough = c_borough c, zip_code = c_zip_code c,
             is_weekend = c_is_weekend c, metric = c_metric c,
             holiday_name = fill_null ''Non-Holiday'' j_holiday_name,
             types = j_types,
             temp_max_c = j_temp_max_c,
             temp_min_c = j_temp_min_c,
             has_rain = fill_null False (Option.bind w wc_has_rain),
             has_snow = fill_null False (Option.bind w wc_has_snow),
             is_foggy = fill_null False (Option.bind w wc_is_foggy),
             high_impact_holiday =
               fill_null False (kleene_or (list_contains ''Public'' j_types)
                                          (list_contains ''Bank'' j_types)),
             partial_impact_holiday =
               fill_null False (kleene_or (list_contains ''School'' j_types)
                                          (list_contains ''Authorities'' j_types)),
             low_impact_holiday =
               fill_null False (kleene_or (list_contains ''Optional'' j_types)
                                          (list_contains ''Observance'' j_types)),
             max_temp = j_temp_max_c,
             min_temp = j_temp_min_c \<rparr>)"

definition enrich_collisions :: "collision list \<Rightarrow> holiday list \<Rightarrow> weather list \<Rightarrow> enriched list" where
  "enrich_collisions lf_collisions lf_holidays lf_weather =
     (let weather_clean = map select_weather_clean lf_weather
      in map with_columns
           (left_join (c_date \<circ> fst) wc_date
              (left_join c_date h_date
                 (filter_rows (\<lambda>c. ge_lit (dt_year (c_date c)) 2020) lf_collisions)
                 lf_holidays)
              weather_clean))"

text \<open>A row of the daily fact table: the thirteen grouping columns and the aggregates.\<close>

record fact =
  f_date :: "date option"
  f_borough :: "string option"
  f_zip_code :: "string option"
  f_is_weekend :: "bool option"
  f_holiday_name :: "string option"
  f_high_impact_holiday :: "bool option"
  f_partial_impact_holiday :: "bool option"
  f_low_impact_holiday :: "bool option"
  f_has_rain :: "bool option"
  f_has_snow :: "bool option"
  f_is_foggy :: "bool option"
  f_max_temp :: "rat option"
  f_min_temp :: "rat option"
  total_accidents :: nat
  f_metric_sums :: "(string \<times> int32) list"

type_synonym group_key =
  "date option \<times> string option \<times> string option \<times> bool option \<times> string option \<times>
   bool option \<times> bool option \<times> bool option \<times> bool option \<times> bool option \<times> bool option \<times>
   rat option \<times> rat option"

definition group_cols :: "enriched \<Rightarrow> group_key" where
  "group_cols r =
     (date r, borough r, zip_code r, is_weekend r, holiday_name r,
      high_impact_holiday r, partial_impact_holiday r, low_impact_holiday r,
      has_rain r, has_snow r, is_foggy r, max_temp r, min_temp r)"

text \<open>\<open>pl.col(m).sum()\<close> within a group: nulls are skipped, an \<open>Int32\<close> sum wraps.\<close>

definition col_sum :: "string \<Rightarrow> enriched list \<Rightarrow> int32" where
  "col_sum m g = sum_list (map (\<lambda>r. case metric r m of None \<Rightarrow> 0 | Some v \<Rightarrow> v) g)"

definition agg :: "group_key \<times> enriched list \<Rightarrow> fact" where
  "agg kg =
     (case kg of ((d, b, z, we, hn, hi, pa, lo, ra, sn, fo, tmax, tmin), g) \<Rightarrow>
        \<lparr> f_date = d, f_borough = b, f_zip_code = z, f_is_weekend = we, f_holiday_name = hn,
          f_high_impact_holiday = hi, f_partial_impact_holiday = pa, f_low_impact_holiday = lo,
          f_has_rain = ra, f_has_snow = sn, f_is_foggy = fo, f_max_temp = tmax, f_min_temp = tmin,
          total_accidents = length g,
          f_metric_sums = map (\<lambda>m. (m, col_sum m g)) METRIC_COLS \<rparr>)"

text \<open>
  \<open>_aggregate_stats\<close>: group by the thirteen columns, count and sum each group, sort by
  date (ascending, nulls first).
\<close>

definition aggregate_stats :: "enriched list \<Rightarrow> fact list" where
  "aggregate_stats enriched_df =
     sort_key f_date
       (map agg (group_by group_cols enriched_df))"

text \<open>
  \<open>process_gold_data\<close> on in-memory frames: enrich, aggregate, clear the gold directory,
  write the columnar file, write the delimited text file. \<open>to_parquet\<close> and \<open>to_csv\<close>
  give the contents the storage library writes for a frame.
\<close>

definition gold_persist :: "(fact list \<Rightarrow> 'c) \<Rightarrow> (fact list \<Rightarrow> 'c) \<Rightarrow> fact list \<Rightarrow> path \<Rightarrow> 'c step list" where
  "gold_persist to_parquet to_csv df_gold gold_base_path =
     (let parquet_path = gold_base_path @ [''daily_stats.parquet''];
          csv_path = gold_base_path @ [''daily_stats.csv'']
      in [clean_output_directory gold_base_path,
          write_file parquet_path (to_parquet df_gold),
          write_file csv_path (to_csv df_gold)])"

definition process_gold_data ::
  "(fact list \<Rightarrow> 'c) \<Rightarrow> (fact list \<Rightarrow> 'c) \<Rightarrow>
   collision list \<Rightarrow> holiday list \<Rightarrow> weather list \<Rightarrow> path \<Rightarrow> 'c step" where
  "process_gold_data to_parquet to_csv collisions_data holidays_data weather_data gold_base_path fs =
     (let df_enriched = enrich_collisions collisions_data holidays_data weather_data;
          df_gold = aggregate_stats df_enriched
      in run (gold_persist to_parquet to_csv df_gold gold_base_path) fs)"

section \<open>Utilities: the HTTP session and the data-quality check\<close>





















text \<open>
  \<open>validate_dataframe\<close>: a frame is its list of named columns, its height the length of
  a column. The call logs, may raise, and leaves behind the frame it was given; the model
  returns the error or that frame, together with the log.
\<close>

type_synonym 'a dataframe = "(string \<times> 'a option list) list"

definition height :: "'a dataframe \<Rightarrow> nat" where
  "height df = (case df of [] \<Rightarrow> 0 | (name, cells) # _ \<Rightarrow> length cells)"

definition columns :: "'a dataframe \<Rightarrow> string list" where
  "columns df = map fst df"

definition null_count :: "'a dataframe \<Rightarrow> string \<Rightarrow> nat" where
  "null_count df col =
     (case map_of df col of None \<Rightarrow> 0 | Some cells \<Rightarrow> length (filter (\<lambda>c. c = None) cells))"

datatype level = INFO | WARNING

datatype message =
    Running_check string
  | Skipping_missing_column string string
  | Column_has_nulls string string nat
  | Check_passed string nat

type_synonym log = "(level \<times> message) list"

fun null_checks :: "'a dataframe \<Rightarrow> string \<Rightarrow> string list \<Rightarrow> log \<Rightarrow> log" where
  "null_checks df name [] lg = lg"
| "null_checks df name (col # cols) lg =
     (if col \<notin> set (columns df)
      then null_checks df name cols (lg @ [(WARNING, Skipping_missing_column col name)])
      else if 0 < null_count df col
      then null_checks df name cols (lg @ [(WARNING, Column_has_nulls col name (null_count df col))])
      else null_checks df name cols lg)"

definition validate_dataframe ::
  "'a dataframe \<Rightarrow> string \<Rightarrow> string list option \<Rightarrow> log \<Rightarrow> (error + 'a dataframe) \<times> log" where
  "validate_dataframe df name critical_cols lg =
     (let lg1 = lg @ [(INFO, Running_check name)]
      in if height df = 0 then (Inl ValueError, lg1)
         else
           let lg2 = (case critical_cols of
                        None \<Rightarrow> lg1
                      | Some cols \<Rightarrow> if cols = [] then lg1 else null_checks df name cols lg1)
           in (Inr df, lg2 @ [(INFO, Check_passed name (height df))]))"

section \<open>Sample frames of the test suite\<close>

text \<open>
  The frames of \<open>tests/test_gold.py\<close>, with the partition columns that the silver layer
  adds and nulls for the columns the tests leave out.
\<close>

definition sample_metrics :: "int32 \<Rightarrow> string \<Rightarrow> int32 option" where
  "sample_metrics injured =
     map_of ((''number_of_persons_injured'', injured) # map (\<lambda>m. (m, 0)) METRIC_COLS)"

definition sample_collisions :: "collision list" where
  "sample_collisions =
     [\<lparr> c_date = Some (2024, 1, 1), c_borough = Some ''MANHATTAN'', c_zip_code = Some ''10001'',
        c_is_weekend = Some False, c_metric = sample_metrics 1 \<rparr>,
      \<lparr> c_date = Some (2024, 1, 1), c_borough = Some ''MANHATTAN'', c_zip_code = Some ''10001'',
        c_is_weekend = Some False, c_metric = sample_metrics 2 \<rparr>,
      \<lparr> c_date = Some (2019, 12, 31), c_borough = Some ''QUEENS'', c_zip_code = Some ''11101'',
        c_is_weekend = Some False, c_metric = sample_metrics 0 \<rparr>]"

definition sample_holidays :: "holiday list" where
  "sample_holidays =
     [\<lparr> h_date = Some (2024, 1, 1), h_holiday_name = Some ''New Year'',
        h_types = Some [''National'', ''Public''], h_year = Some 2024, h_month = Some 1 \<rparr>]"

definition sample_weather :: "weather list" where
  "sample_weather =
     [\<lparr> w_date = Some (2024, 1, 1), w_temp_max_c = Some (21 / 2), w_temp_min_c = Some 5,
        w_precipitation_mm = None, w_snow_mm = None, w_is_foggy = Some False,
        w_has_rain = Some True, w_has_snow = Some False,
        w_year = Some 2024, w_month = Some 1 \<rparr>]"

text \<open>The collision of \<open>test_enrich_collisions_missing_weather\<close>: a date and nothing else.\<close>

definition collision_without_weather :: collision where
  "collision_without_weather =
     \<lparr> c_date = Some (2024, 6, 1), c_borough = None, c_zip_code = None,
       c_is_weekend = None, c_metric = map_of [] \<rparr>"

text \<open>Three raw holiday entries of one date, the third repeating the first.\<close>

definition same_day_holidays_raw :: "holiday_raw list" where
  "same_day_holidays_raw =
     [\<lparr> hr_date = Some ''2024-01-01'', hr_name = Some ''New Year'', hr_types = Some [''Public''] \<rparr>,
      \<lparr> hr_date = Some ''2024-01-01'', hr_name = Some ''Bank Holiday'', hr_types = Some [''Bank''] \<rparr>,
      \<lparr> hr_date = Some ''2024-01-01'', hr_name = Some ''New Year'', hr_types = Some [''Public''] \<rparr>]"


text \<open>
  The three collisions of the null-date scenario, the weather frame of
  \<open>tests/test_silver.py\<close>, and four weather rows for the fog flags. For the persistence a
  storage layout of one file per frame.
\<close>

definition null_date_collisions :: "collision_raw list" where
  "null_date_collisions =
     [\<lparr> CRASH_DATE = Some ''01/01/2024'', BOROUGH = Some ''MANHATTAN'', ZIP_CODE = Some ''10001'',
        raw_metric = map_of [(''number_of_persons_injured'', Str ''1'')] \<rparr>,
      \<lparr> CRASH_DATE = Some ''01/01/2019'', BOROUGH = None, ZIP_CODE = None,
        raw_metric = map_of [] \<rparr>,
      \<lparr> CRASH_DATE = None, BOROUGH = Some ''BRONX'', ZIP_CODE = None,
        raw_metric = map_of [(''number_of_persons_injured'', Str ''0'')] \<rparr>]"

definition sample_weather_raw :: "weather_raw list" where
  "sample_weather_raw =
     [\<lparr> DATE = Some ''2019-12-31'', TMAX = Some ''100'', TMIN = Some ''0'', PRCP = Some ''0'',
        SNOW = Some ''0'', WT01 = Some ''0'', WT02 = Some ''0'' \<rparr>,
      \<lparr> DATE = Some ''2024-01-01'', TMAX = Some ''250'', TMIN = Some ''150'', PRCP = Some ''50'',
        SNOW = Some ''0'', WT01 = Some ''1'', WT02 = Some ''0'' \<rparr>,
      \<lparr> DATE = Some ''2024-01-02'', TMAX = Some ''-50'', TMIN = Some ''-100'', PRCP = Some ''0'',
        SNOW = Some ''10'', WT01 = Some ''0'', WT02 = Some ''1'' \<rparr>]"

definition fog_weather_raw :: "weather_raw list" where
  "fog_weather_raw =
     [\<lparr> DATE = Some ''2024-01-01'', TMAX = None, TMIN = None, PRCP = None,
        SNOW = None, WT01 = Some ''1'', WT02 = Some ''0'' \<rparr>,
      \<lparr> DATE = Some ''2024-01-02'', TMAX = None, TMIN = None, PRCP = None,
        SNOW = None, WT01 = Some ''0'', WT02 = Some ''1'' \<rparr>,
      \<lparr> DATE = Some ''2024-01-03'', TMAX = None, TMIN = None, PRCP = None,
        SNOW = None, WT01 = Some ''0'', WT02 = Some ''0'' \<rparr>,
      \<lparr> DATE = Some ''2024-01-04'', TMAX = None, TMIN = None, PRCP = None,
        SNOW = None, WT01 = None, WT02 = Some ''fog'' \<rparr>]"

definition one_file :: "string list \<Rightarrow> 'r list \<Rightarrow> (path \<times> 'r list) list" where
  "one_file partition_by df = [([''part'', ''0.parquet''], df)]"

text \<open>
  A frame with nulls in its date column and no locality column, for the data-quality
  check; a gold directory that holds a file of a previous run, with files tagged by
  their format.
\<close>

definition dq_sample :: "string dataframe" where
  "dq_sample = [(''CRASH DATE'', [Some ''01/01/2024'', None]), (''ZIP CODE'', [None, None])]"

definition stale_gold_fs :: "(string \<times> fact list) fs" where
  "stale_gold_fs =
     [([''gold''], Dir), ([''gold'', ''old_stats.parquet''], File (''parquet'', []))]"

section \<open>Properties of the gold layer\<close>

lemma sum_list_insort_key:
  "sum_list (map f (insort_key k x xs)) = f x + sum_list (map f xs)" for f :: "'a \<Rightarrow> nat"
  by (induction xs) auto

lemma sum_list_sort_key:
  "sum_list (map f (sort_key k xs)) = sum_list (map f xs)" for f :: "'a \<Rightarrow> nat"
  by (induction xs) (auto simp: sum_list_insort_key)

lemma group_by_sizes:
  "sum_list (map (\<lambda>(k, g). length g) (group_by key rows)) = length rows"
proof (induction key rows rule: group_by.induct)
  case (1 key)
  show ?case by simp
next
  case (2 key r rs)
  have "length (filter (\<lambda>x. key x = key r) rs) + length (filter (\<lambda>x. key x \<noteq> key r) rs)
        = length rs"
    by (rule sum_length_filter_compl)
  with 2 show ?case by simp
qed

lemma aggregate_stats_total:
  "sum_list (map total_accidents (aggregate_stats enriched_df)) = length enriched_df"
proof -
  have "map total_accidents (map agg (group_by group_cols enriched_df))
        = map (\<lambda>(k, g). length g) (group_by group_cols enriched_df)"
    by (auto simp: agg_def)
  then show ?thesis
    by (simp only: aggregate_stats_def sum_list_sort_key group_by_sizes)
qed

text \<open>
  C1. Aggregation conservation: the \<open>total_accidents\<close> of the fact rows add up to the
  number of rows of the enriched table, whatever nulls its grouping columns hold, and the
  fact rows come out in ascending order of date.
\<close>

theorem C1_aggregation_conservation:
  "sum_list (map total_accidents (aggregate_stats enriched_df)) = length enriched_df
   \<and> sorted (map f_date (aggregate_stats enriched_df))"
  by (simp add: aggregate_stats_total) (simp add: aggregate_stats_def)


lemma length_left_join_single:
  "length (left_join lkey rkey [l] right) = max 1 (length (matches rkey (lkey l) right))"
  by (cases "matches rkey (lkey l) right") (simp_all add: left_join_def)

lemma enrich_collisions_concat:
  "enrich_collisions cs hs ws = concat (map (\<lambda>c. enrich_collisions [c] hs ws) cs)"
proof (induction cs)
  case Nil
  show ?case by (simp add: enrich_collisions_def filter_rows_def left_join_def)
next
  case (Cons c cs)
  have "enrich_collisions (c # cs) hs ws = enrich_collisions [c] hs ws @ enrich_collisions cs hs ws"
    by (simp add: enrich_collisions_def filter_rows_def left_join_def Let_def)
  with Cons show ?case by simp
qed

lemma length_left_join_const_key:
  assumes "\<forall>x \<in> set left. lkey x = k"
  shows "length (left_join lkey rkey left right) = length left * max 1 (length (matches rkey k right))"
  using assms
proof (induction left)
  case Nil
  show ?case by (simp add: left_join_def)
next
  case (Cons a left)
  have "left_join lkey rkey (a # left) right = left_join lkey rkey [a] right @ left_join lkey rkey left right"
    by (simp add: left_join_def)
  with Cons show ?case by (simp add: length_left_join_single)
qed

lemma in_left_join:
  "(l, ro) \<in> set (left_join lkey rkey left right) \<longleftrightarrow>
     l \<in> set left \<and>
     (ro = None \<and> matches rkey (lkey l) right = []
      \<or> (\<exists>r. ro = Some r \<and> r \<in> set (matches rkey (lkey l) right)))"
proof -
  have one: "(l, ro) \<in> set (case matches rkey (lkey x) right of
                               [] \<Rightarrow> [(x, None)] | ms \<Rightarrow> map (\<lambda>r. (x, Some r)) ms)
             \<longleftrightarrow> l = x \<and> (ro = None \<and> matches rkey (lkey l) right = []
                          \<or> (\<exists>r. ro = Some r \<and> r \<in> set (matches rkey (lkey l) right)))" for x
    by (cases "matches rkey (lkey x) right"; cases ro) auto
  show ?thesis
  proof (induction left)
    case Nil
    show ?case by (simp add: left_join_def)
  next
    case (Cons x left)
    have "left_join lkey rkey (x # left) right =
            (case matches rkey (lkey x) right of
               [] \<Rightarrow> [(x, None)] | ms \<Rightarrow> map (\<lambda>r. (x, Some r)) ms)
            @ left_join lkey rkey left right"
      by (simp add: left_join_def)
    then show ?case
      using Cons one [of x] by auto
  qed
qed

lemma left_join_keys:
  "x \<in> set (left_join lkey rkey left right) \<Longrightarrow> fst x \<in> set left"
  by (cases x) (simp add: in_left_join)

lemma matches_map:
  "matches rkey k (map f right) = map f (matches (rkey \<circ> f) k right)"
  by (simp add: matches_def filter_map comp_def)

lemma enrich_collisions_fanout:
  assumes "c_date c = Some d" "2020 \<le> fst d"
  shows "length (enrich_collisions [c] hs ws) =
         max 1 (length (filter (\<lambda>h. h_date h = Some d) hs))
         * max 1 (length (filter (\<lambda>w. w_date w = Some d) ws))"
proof -
  let ?J = "left_join c_date h_date [c] hs"
  have keep: "filter_rows (\<lambda>c. ge_lit (dt_year (c_date c)) 2020) [c] = [c]"
    using assms by (cases d) (simp add: filter_rows_def ge_lit_def dt_year_def)
  have keys: "\<forall>x \<in> set ?J. (c_date \<circ> fst) x = Some d"
    using assms(1) by (auto dest: left_join_keys)
  have "length (enrich_collisions [c] hs ws)
        = length (left_join (c_date \<circ> fst) wc_date ?J (map select_weather_clean ws))"
    by (simp add: enrich_collisions_def keep Let_def)
  also have "\<dots> = length ?J * max 1 (length (matches wc_date (Some d) (map select_weather_clean ws)))"
    by (rule length_left_join_const_key [OF keys])
  also have "length ?J = max 1 (length (matches h_date (c_date c) hs))"
    by (rule length_left_join_single)
  also have "matches h_date (c_date c) hs = filter (\<lambda>h. h_date h = Some d) hs"
    using assms(1) by (simp add: matches_def)
  also have "length (matches wc_date (Some d) (map select_weather_clean ws))
             = length (filter (\<lambda>w. w_date w = Some d) ws)"
    by (simp add: matches_map matches_def comp_def select_weather_clean_def)
  finally show ?thesis .
qed

lemma in_enrich_collisions:
  "r \<in> set (enrich_collisions cs hs ws) \<longleftrightarrow>
     (\<exists>c ho wo. r = with_columns ((c, ho), wo) \<and> c \<in> set cs
        \<and> ge_lit (dt_year (c_date c)) 2020 = Some True
        \<and> (ho = None \<and> matches h_date (c_date c) hs = []
             \<or> (\<exists>h. ho = Some h \<and> h \<in> set (matches h_date (c_date c) hs)))
        \<and> (wo = None \<and> matches wc_date (c_date c) (map select_weather_clean ws) = []
             \<or> (\<exists>w. wo = Some w
                     \<and> w \<in> set (matches wc_date (c_date c) (map select_weather_clean ws)))))"
  unfolding enrich_collisions_def Let_def set_map image_iff
  by (simp add: Bex_def in_left_join filter_rows_def) blast

lemma with_columns_weather_none:
  "has_rain (with_columns ((c, ho), None)) = Some False
   \<and> has_snow (with_columns ((c, ho), None)) = Some False
   \<and> is_foggy (with_columns ((c, ho), None)) = Some False
   \<and> max_temp (with_columns ((c, ho), None)) = None
   \<and> min_temp (with_columns ((c, ho), None)) = None"
  by (simp add: with_columns_def fill_null_def Let_def)

lemma with_columns_weather_some:
  "max_temp (with_columns ((c, ho), Some (select_weather_clean w))) = w_temp_max_c w
   \<and> min_temp (with_columns ((c, ho), Some (select_weather_clean w))) = w_temp_min_c w"
  by (simp add: with_columns_def select_weather_clean_def Let_def)

lemma with_columns_holiday_none:
  "holiday_name (with_columns ((c, None), wo)) = Some ''Non-Holiday''"
  by (simp add: with_columns_def fill_null_def Let_def)

lemma with_columns_collision:
  "date (with_columns ((c, ho), wo)) = c_date c
   \<and> borough (with_columns ((c, ho), wo)) = c_borough c
   \<and> zip_code (with_columns ((c, ho), wo)) = c_zip_code c
   \<and> is_weekend (with_columns ((c, ho), wo)) = c_is_weekend c
   \<and> metric (with_columns ((c, ho), wo)) = c_metric c"
  by (simp add: with_columns_def Let_def)

lemma matches_empty_iff:
  "matches rkey (Some d) right = [] \<longleftrightarrow> (\<forall>r \<in> set right. rkey r \<noteq> Some d)"
  by (simp add: matches_def filter_empty_conv)

lemma in_matches_iff:
  "r \<in> set (matches rkey (Some d) right) \<longleftrightarrow> r \<in> set right \<and> rkey r = Some d"
  by (auto simp: matches_def)

lemma ge_year_iff:
  "ge_lit (dt_year c) 2020 = Some True \<longleftrightarrow> (\<exists>d. c = Some d \<and> 2020 \<le> fst d)"
  by (cases c) (auto simp: ge_lit_def dt_year_def)

text \<open>
  C2 (as amended). Every collision dated 2020 or later has a row in the enriched table
  (earlier ones are filtered out and have none). In every enriched row whose date has no
  weather row, \<open>has_rain\<close>, \<open>has_snow\<close> and \<open>is_foggy\<close> are false and \<open>max_temp\<close>,
  \<open>min_temp\<close> are null; where the date has a weather row, \<open>max_temp\<close> and \<open>min_temp\<close>
  are the temperatures of a weather row of that date; and where the date has no holiday
  row, \<open>holiday_name\<close> is the literal \<open>Non-Holiday\<close>.
\<close>

theorem C2_enrich_defaults:
  "(\<forall>c \<in> set cs. \<forall>d. c_date c = Some d \<and> 2020 \<le> fst d \<longrightarrow>
      (\<exists>r \<in> set (enrich_collisions cs hs ws).
         date r = Some d \<and> borough r = c_borough c \<and> zip_code r = c_zip_code c
         \<and> is_weekend r = c_is_weekend c \<and> metric r = c_metric c))
   \<and> (\<forall>r \<in> set (enrich_collisions cs hs ws). \<exists>d. date r = Some d \<and> 2020 \<le> fst d
      \<and> ((\<forall>w \<in> set ws. w_date w \<noteq> Some d) \<longrightarrow>
            has_rain r = Some False \<and> has_snow r = Some False \<and> is_foggy r = Some False
            \<and> max_temp r = None \<and> min_temp r = None)
      \<and> ((\<exists>w \<in> set ws. w_date w = Some d) \<longrightarrow>
            (\<exists>w \<in> set ws. w_date w = Some d
               \<and> max_temp r = w_temp_max_c w \<and> min_temp r = w_temp_min_c w))
      \<and> ((\<forall>h \<in> set hs. h_date h \<noteq> Some d) \<longrightarrow> holiday_name r = Some ''Non-Holiday''))"
proof (intro conjI ballI allI impI)
  fix c d
  assume c: "c \<in> set cs" and d: "c_date c = Some d \<and> 2020 \<le> fst d"
  obtain ho where ho: "ho = None \<and> matches h_date (c_date c) hs = []
                       \<or> (\<exists>h. ho = Some h \<and> h \<in> set (matches h_date (c_date c) hs))"
    by (cases "matches h_date (c_date c) hs") auto
  obtain wo where wo: "wo = None \<and> matches wc_date (c_date c) (map select_weather_clean ws) = []
        \<or> (\<exists>w. wo = Some w \<and> w \<in> set (matches wc_date (c_date c) (map select_weather_clean ws)))"
    by (cases "matches wc_date (c_date c) (map select_weather_clean ws)") auto
  have "with_columns ((c, ho), wo) \<in> set (enrich_collisions cs hs ws)"
    unfolding in_enrich_collisions ge_year_iff using c d ho wo by blast
  then show "\<exists>r \<in> set (enrich_collisions cs hs ws).
         date r = Some d \<and> borough r = c_borough c \<and> zip_code r = c_zip_code c
         \<and> is_weekend r = c_is_weekend c \<and> metric r = c_metric c"
    using with_columns_collision [of c ho wo] d by auto
next
  fix r
  assume "r \<in> set (enrich_collisions cs hs ws)"
  then obtain c ho wo d where r: "r = with_columns ((c, ho), wo)"
    and d: "c_date c = Some d" "2020 \<le> fst d"
    and ho: "ho = None \<and> matches h_date (Some d) hs = []
             \<or> (\<exists>h. ho = Some h \<and> h \<in> set (matches h_date (Some d) hs))"
    and wo: "wo = None \<and> matches wc_date (Some d) (map select_weather_clean ws) = []
        \<or> (\<exists>w. wo = Some w \<and> w \<in> set (matches wc_date (Some d) (map select_weather_clean ws)))"
    unfolding in_enrich_collisions ge_year_iff by auto
  have none_w: "wo = None" if "\<forall>w \<in> set ws. w_date w \<noteq> Some d"
    using wo that by (cases wo) (auto simp: in_matches_iff select_weather_clean_def)
  have some_w: "\<exists>w \<in> set ws. w_date w = Some d \<and> wo = Some (select_weather_clean w)"
    if "\<exists>w \<in> set ws. w_date w = Some d"
  proof (cases wo)
    case None
    with wo that show ?thesis
      by (auto simp: matches_empty_iff select_weather_clean_def)
  next
    case (Some w)
    with wo show ?thesis
      by (auto simp: in_matches_iff select_weather_clean_def)
  qed
  have none_h: "ho = None" if "\<forall>h \<in> set hs. h_date h \<noteq> Some d"
    using ho that by (cases ho) (auto simp: in_matches_iff)
  have p1: "date r = Some d"
    using r d by (simp add: with_columns_collision)
  have p2: "has_rain r = Some False \<and> has_snow r = Some False \<and> is_foggy r = Some False
            \<and> max_temp r = None \<and> min_temp r = None"
    if a: "\<forall>w \<in> set ws. w_date w \<noteq> Some d"
    unfolding r none_w [OF a] by (rule with_columns_weather_none)
  have p3: "\<exists>w \<in> set ws. w_date w = Some d
               \<and> max_temp r = w_temp_max_c w \<and> min_temp r = w_temp_min_c w"
    if a: "\<exists>w \<in> set ws. w_date w = Some d"
  proof -
    from some_w [OF a] obtain w where w: "w \<in> set ws" "w_date w = Some d"
      "wo = Some (select_weather_clean w)" by blast
    show ?thesis
      unfolding r using w with_columns_weather_some [of c ho w] by auto
  qed
  have p4: "holiday_name r = Some ''Non-Holiday''" if a: "\<forall>h \<in> set hs. h_date h \<noteq> Some d"
    unfolding r none_h [OF a] by (rule with_columns_holiday_none)
  show "\<exists>d. date r = Some d \<and> 2020 \<le> fst d
      \<and> ((\<forall>w \<in> set ws. w_date w \<noteq> Some d) \<longrightarrow>
            has_rain r = Some False \<and> has_snow r = Some False \<and> is_foggy r = Some False
            \<and> max_temp r = None \<and> min_temp r = None)
      \<and> ((\<exists>w \<in> set ws. w_date w = Some d) \<longrightarrow>
            (\<exists>w \<in> set ws. w_date w = Some d
               \<and> max_temp r = w_temp_max_c w \<and> min_temp r = w_temp_min_c w))
      \<and> ((\<forall>h \<in> set hs. h_date h \<noteq> Some d) \<longrightarrow> holiday_name r = Some ''Non-Holiday'')"
    using p1 d(2) p2 p3 p4 by (intro exI [of _ d]) blast
qed

text \<open>
  The collision of \<open>test_enrich_collisions_missing_weather\<close>, dated 2024-06-01, against
  the sample holidays and weather of 2024-01-01.
\<close>

theorem C2_enrich_defaults_witness:
  "date (hd (enrich_collisions [collision_without_weather] sample_holidays sample_weather))
     = Some (2024, 6, 1)
   \<and> has_rain (hd (enrich_collisions [collision_without_weather] sample_holidays sample_weather))
     = Some False
   \<and> has_snow (hd (enrich_collisions [collision_without_weather] sample_holidays sample_weather))
     = Some False
   \<and> is_foggy (hd (enrich_collisions [collision_without_weather] sample_holidays sample_weather))
     = Some False
   \<and> max_temp (hd (enrich_collisions [collision_without_weather] sample_holidays sample_weather))
     = None
   \<and> min_temp (hd (enrich_collisions [collision_without_weather] sample_holidays sample_weather))
     = None
   \<and> holiday_name (hd (enrich_collisions [collision_without_weather] sample_holidays sample_weather))
     = Some ''Non-Holiday''"
proof -
  let ?E = "enrich_collisions [collision_without_weather] sample_holidays sample_weather"
  have e: "?E = [with_columns ((collision_without_weather, None), None)]"
    by (simp add: enrich_collisions_def filter_rows_def ge_lit_def dt_year_def left_join_def
        matches_def collision_without_weather_def sample_holidays_def sample_weather_def
        select_weather_clean_def)
  have d: "date (hd ?E) = Some (2024, 6, 1)"
    unfolding e by (simp add: with_columns_collision collision_without_weather_def)
  have nw: "\<forall>w \<in> set sample_weather. w_date w \<noteq> Some (2024, 6, 1)"
    by (simp add: sample_weather_def)
  have nh: "\<forall>h \<in> set sample_holidays. h_date h \<noteq> Some (2024, 6, 1)"
    by (simp add: sample_holidays_def)
  have "hd ?E \<in> set ?E" by (simp add: e)
  with C2_enrich_defaults [of "[collision_without_weather]" sample_holidays sample_weather]
  obtain d' where "date (hd ?E) = Some d'"
    and "(\<forall>w \<in> set sample_weather. w_date w \<noteq> Some d') \<longrightarrow>
            has_rain (hd ?E) = Some False \<and> has_snow (hd ?E) = Some False
            \<and> is_foggy (hd ?E) = Some False \<and> max_temp (hd ?E) = None \<and> min_temp (hd ?E) = None"
    and "(\<forall>h \<in> set sample_holidays. h_date h \<noteq> Some d') \<longrightarrow>
            holiday_name (hd ?E) = Some ''Non-Holiday''"
    by blast
  with d nw nh show ?thesis by simp
qed

text \<open>
  C2 as stated fails for a collision before 2020: the third sample collision, dated
  2019-12-31, has no weather row of its date and yields no enriched row at all.
\<close>

theorem C2_counterexample:
  "c_date (sample_collisions ! 2) = Some (2019, 12, 31)
   \<and> map w_date sample_weather = [Some (2024, 1, 1)]
   \<and> enrich_collisions [sample_collisions ! 2] sample_holidays sample_weather = []"
  by (simp add: sample_collisions_def sample_weather_def enrich_collisions_def filter_rows_def
      ge_lit_def dt_year_def left_join_def)

lemma kleene_or_Some: "kleene_or (Some x) (Some y) = Some (x \<or> y)"
  by (cases x; cases y) simp_all

lemma impact_flag:
  "fill_null False (kleene_or (list_contains a l) (list_contains b l))
   = Some (\<exists>ts. l = Some ts \<and> (a \<in> set ts \<or> b \<in> set ts))"
  by (cases l) (simp_all add: list_contains_def fill_null_def kleene_or_Some)

lemma with_columns_flags:
  "types (with_columns ((c, ho), wo)) = Option.bind ho h_types
   \<and> high_impact_holiday (with_columns ((c, ho), wo))
       = Some (\<exists>ts. Option.bind ho h_types = Some ts \<and> (''Public'' \<in> set ts \<or> ''Bank'' \<in> set ts))
   \<and> partial_impact_holiday (with_columns ((c, ho), wo))
       = Some (\<exists>ts. Option.bind ho h_types = Some ts
                    \<and> (''School'' \<in> set ts \<or> ''Authorities'' \<in> set ts))
   \<and> low_impact_holiday (with_columns ((c, ho), wo))
       = Some (\<exists>ts. Option.bind ho h_types = Some ts
                    \<and> (''Optional'' \<in> set ts \<or> ''Observance'' \<in> set ts))"
  by (simp add: with_columns_def Let_def impact_flag)

text \<open>
  C3. In every enriched row each impact flag is true exactly when the type list of the
  joined holiday contains one of its two tags; the three flags are false when the type
  list is absent, which is the case when no holiday has the row's date; the type list is
  that of a holiday of the row's date; and the list \<open>["National", "Public"]\<close> gives
  high impact only.
\<close>

theorem C3_impact_flags:
  "\<forall>r \<in> set (enrich_collisions cs hs ws).
     high_impact_holiday r
       = Some (\<exists>ts. types r = Some ts \<and> (''Public'' \<in> set ts \<or> ''Bank'' \<in> set ts))
   \<and> partial_impact_holiday r
       = Some (\<exists>ts. types r = Some ts \<and> (''School'' \<in> set ts \<or> ''Authorities'' \<in> set ts))
   \<and> low_impact_holiday r
       = Some (\<exists>ts. types r = Some ts \<and> (''Optional'' \<in> set ts \<or> ''Observance'' \<in> set ts))
   \<and> (types r = None \<longrightarrow>
         high_impact_holiday r = Some False \<and> partial_impact_holiday r = Some False
         \<and> low_impact_holiday r = Some False)
   \<and> (types r = Some [''National'', ''Public''] \<longrightarrow>
         high_impact_holiday r = Some True \<and> partial_impact_holiday r = Some False
         \<and> low_impact_holiday r = Some False)
   \<and> (types r = None \<or> (\<exists>h \<in> set hs. h_date h = date r \<and> h_types h = types r))
   \<and> ((\<forall>h \<in> set hs. h_date h \<noteq> date r) \<longrightarrow> types r = None)"
proof
  fix r
  assume "r \<in> set (enrich_collisions cs hs ws)"
  then obtain c ho wo where r: "r = with_columns ((c, ho), wo)"
    and ho: "ho = None \<and> matches h_date (c_date c) hs = []
             \<or> (\<exists>h. ho = Some h \<and> h \<in> set (matches h_date (c_date c) hs))"
    unfolding in_enrich_collisions by blast
  note f = with_columns_flags [of c ho wo, folded r]
  have dr: "date r = c_date c"
    by (simp add: r with_columns_collision)
  have joined: "types r = None \<or> (\<exists>h \<in> set hs. h_date h = date r \<and> h_types h = types r)"
  proof (cases ho)
    case None
    with f show ?thesis by simp
  next
    case (Some h)
    with ho have "h \<in> set hs \<and> h_date h = c_date c" by (auto simp: matches_def)
    with f Some dr show ?thesis by auto
  qed
  have absent: "types r = None" if "\<forall>h \<in> set hs. h_date h \<noteq> date r"
    using joined that by auto
  have hi: "high_impact_holiday r
       = Some (\<exists>ts. types r = Some ts \<and> (''Public'' \<in> set ts \<or> ''Bank'' \<in> set ts))"
    and pa: "partial_impact_holiday r
       = Some (\<exists>ts. types r = Some ts \<and> (''School'' \<in> set ts \<or> ''Authorities'' \<in> set ts))"
    and lo: "low_impact_holiday r
       = Some (\<exists>ts. types r = Some ts \<and> (''Optional'' \<in> set ts \<or> ''Observance'' \<in> set ts))"
    using f by simp_all
  have none: "high_impact_holiday r = Some False \<and> partial_impact_holiday r = Some False
         \<and> low_impact_holiday r = Some False" if "types r = None"
    using that by (simp add: hi pa lo)
  have ex: "high_impact_holiday r = Some True \<and> partial_impact_holiday r = Some False
         \<and> low_impact_holiday r = Some False" if "types r = Some [''National'', ''Public'']"
    using that by (simp add: hi pa lo)
  from hi pa lo none ex joined absent
  show "high_impact_holiday r
       = Some (\<exists>ts. types r = Some ts \<and> (''Public'' \<in> set ts \<or> ''Bank'' \<in> set ts))
   \<and> partial_impact_holiday r
       = Some (\<exists>ts. types r = Some ts \<and> (''School'' \<in> set ts \<or> ''Authorities'' \<in> set ts))
   \<and> low_impact_holiday r
       = Some (\<exists>ts. types r = Some ts \<and> (''Optional'' \<in> set ts \<or> ''Observance'' \<in> set ts))
   \<and> (types r = None \<longrightarrow>
         high_impact_holiday r = Some False \<and> partial_impact_holiday r = Some False
         \<and> low_impact_holiday r = Some False)
   \<and> (types r = Some [''National'', ''Public''] \<longrightarrow>
         high_impact_holiday r = Some True \<and> partial_impact_holiday r = Some False
         \<and> low_impact_holiday r = Some False)
   \<and> (types r = None \<or> (\<exists>h \<in> set hs. h_date h = date r \<and> h_types h = types r))
   \<and> ((\<forall>h \<in> set hs. h_date h \<noteq> date r) \<longrightarrow> types r = None)"
    by blast
qed

text \<open>
  C10. The enriched table is the concatenation of the rows each collision produces; a
  collision dated 2020 or later produces max(1, holidays of its date) times
  max(1, weather rows of its date) rows; and \<open>total_accidents\<close> adds up to the number of
  enriched rows, so a collision on a date with two holiday entries is counted twice.
\<close>

theorem C10_join_fanout:
  "enrich_collisions cs hs ws = concat (map (\<lambda>c. enrich_collisions [c] hs ws) cs)
   \<and> (\<forall>c d. c_date c = Some d \<and> 2020 \<le> fst d \<longrightarrow>
         length (enrich_collisions [c] hs ws)
         = max 1 (length (filter (\<lambda>h. h_date h = Some d) hs))
           * max 1 (length (filter (\<lambda>w. w_date w = Some d) ws)))
   \<and> sum_list (map total_accidents (aggregate_stats (enrich_collisions cs hs ws)))
       = length (enrich_collisions cs hs ws)"
  using enrich_collisions_concat [of cs hs ws] enrich_collisions_fanout [of _ _ hs ws]
    aggregate_stats_total [of "enrich_collisions cs hs ws"]
  by blast

text \<open>
  Two distinct holiday entries of 2024-01-01 (and a repetition of the first, which
  \<open>unique\<close> removes) come out of the holidays query as two rows, and the first sample
  collision then appears twice and counts twice.
\<close>

theorem C10_join_fanout_witness:
  "holidays_query reference_library same_day_holidays_raw
     = Inr [\<lparr> h_date = Some (2024, 1, 1), h_holiday_name = Some ''Bank Holiday'',
              h_types = Some [''Bank''], h_year = Some 2024, h_month = Some 1 \<rparr>,
            \<lparr> h_date = Some (2024, 1, 1), h_holiday_name = Some ''New Year'',
              h_types = Some [''Public''], h_year = Some 2024, h_month = Some 1 \<rparr>]
   \<and> length (enrich_collisions [hd sample_collisions]
               [\<lparr> h_date = Some (2024, 1, 1), h_holiday_name = Some ''Bank Holiday'',
                  h_types = Some [''Bank''], h_year = Some 2024, h_month = Some 1 \<rparr>,
                \<lparr> h_date = Some (2024, 1, 1), h_holiday_name = Some ''New Year'',
                  h_types = Some [''Public''], h_year = Some 2024, h_month = Some 1 \<rparr>]
               sample_weather) = 2
   \<and> sum_list (map total_accidents (aggregate_stats (enrich_collisions [hd sample_collisions]
               [\<lparr> h_date = Some (2024, 1, 1), h_holiday_name = Some ''Bank Holiday'',
                  h_types = Some [''Bank''], h_year = Some 2024, h_month = Some 1 \<rparr>,
                \<lparr> h_date = Some (2024, 1, 1), h_holiday_name = Some ''New Year'',
                  h_types = Some [''Public''], h_year = Some 2024, h_month = Some 1 \<rparr>]
               sample_weather))) = 2"
proof -
  let ?H = "[\<lparr> h_date = Some (2024, 1, 1), h_holiday_name = Some ''Bank Holiday'',
                h_types = Some [''Bank''], h_year = Some 2024, h_month = Some 1 \<rparr>,
              \<lparr> h_date = Some (2024, 1, 1), h_holiday_name = Some ''New Year'',
                h_types = Some [''Public''], h_year = Some 2024, h_month = Some 1 \<rparr>]"
  have q: "holidays_query reference_library same_day_holidays_raw = Inr ?H"
    by code_simp
  have c: "c_date (hd sample_collisions) = Some (2024, 1, 1) \<and> (2020::int) \<le> fst (2024, 1, 1)"
    by (simp add: sample_collisions_def)
  have nh: "length (filter (\<lambda>h. h_date h = Some (2024, 1, 1)) ?H) = 2"
    by simp
  have nw: "length (filter (\<lambda>w. w_date w = Some (2024, 1, 1)) sample_weather) = 1"
    by (simp add: sample_weather_def)
  from C10_join_fanout [of "[hd sample_collisions]" ?H sample_weather]
  have len: "\<forall>c d. c_date c = Some d \<and> 2020 \<le> fst d \<longrightarrow>
         length (enrich_collisions [c] ?H sample_weather)
         = max 1 (length (filter (\<lambda>h. h_date h = Some d) ?H))
           * max 1 (length (filter (\<lambda>w. w_date w = Some d) sample_weather))"
    and tot: "sum_list (map total_accidents
                 (aggregate_stats (enrich_collisions [hd sample_collisions] ?H sample_weather)))
       = length (enrich_collisions [hd sample_collisions] ?H sample_weather)"
    by blast+
  from len c have "length (enrich_collisions [hd sample_collisions] ?H sample_weather)
         = max 1 (length (filter (\<lambda>h. h_date h = Some (2024, 1, 1)) ?H))
           * max 1 (length (filter (\<lambda>w. w_date w = Some (2024, 1, 1)) sample_weather))"
    by blast
  then have l2: "length (enrich_collisions [hd sample_collisions] ?H sample_weather) = 2"
    unfolding nh nw by simp
  from q l2 tot show ?thesis by simp
qed

text \<open>The first sample collision, joined to the sample holiday of types National, Public.\<close>

theorem C3_impact_flags_witness:
  "types (hd (enrich_collisions sample_collisions sample_holidays sample_weather))
     = Some [''National'', ''Public'']
   \<and> high_impact_holiday (hd (enrich_collisions sample_collisions sample_holidays sample_weather))
     = Some True
   \<and> partial_impact_holiday (hd (enrich_collisions sample_collisions sample_holidays sample_weather))
     = Some False
   \<and> low_impact_holiday (hd (enrich_collisions sample_collisions sample_holidays sample_weather))
     = Some False"
proof -
  let ?E = "enrich_collisions sample_collisions sample_holidays sample_weather"
  have e: "?E = [with_columns ((sample_collisions ! 0, Some (hd sample_holidays)),
                               Some (select_weather_clean (hd sample_weather))),
                 with_columns ((sample_collisions ! 1, Some (hd sample_holidays)),
                               Some (select_weather_clean (hd sample_weather)))]"
    by (simp add: enrich_collisions_def filter_rows_def ge_lit_def dt_year_def left_join_def
        matches_def sample_collisions_def sample_holidays_def sample_weather_def
        select_weather_clean_def)
  have t: "types (hd ?E) = Some [''National'', ''Public'']"
    unfolding e by (simp add: with_columns_def Let_def sample_holidays_def)
  have "hd ?E \<in> set ?E" by (simp add: e)
  with C3_impact_flags [of sample_collisions sample_holidays sample_weather]
  have "types (hd ?E) = Some [''National'', ''Public''] \<longrightarrow>
         high_impact_holiday (hd ?E) = Some True \<and> partial_impact_holiday (hd ?E) = Some False
         \<and> low_impact_holiday (hd ?E) = Some False"
    by blast
  with t show ?thesis by simp
qed


section \<open>Properties of the silver layer\<close>

lemma collect_eq_Inr:
  "collect xs = Inr vs \<longleftrightarrow> xs = map Inr vs"
proof (induction xs arbitrary: vs)
  case Nil
  show ?case by auto
next
  case (Cons x xs)
  show ?case
  proof (cases x)
    case (Inl e)
    then show ?thesis by auto
  next
    case (Inr v)
    show ?thesis
    proof (cases "collect xs")
      case (Inl e)
      with Cons [of "tl vs"] Inr show ?thesis by (cases vs) auto
    next
      case r: (Inr ws)
      with Cons [of ws] Cons [of "tl vs"] Inr show ?thesis by (cases vs) auto
    qed
  qed
qed

lemma collect_total:
  "(\<exists>out. collect xs = Inr out) \<longleftrightarrow> (\<forall>x \<in> set xs. \<not> isl x)"
proof (induction xs)
  case Nil
  show ?case by simp
next
  case (Cons x xs)
  then show ?case
    by (cases x; cases "collect xs") auto
qed

lemma map_Inr_rel:
  "map f xs = map Inr ys \<Longrightarrow> list_all2 (\<lambda>x y. f x = Inr y) xs ys"
proof (induction xs arbitrary: ys)
  case Nil
  then show ?case by simp
next
  case (Cons x xs)
  then show ?case by (cases ys) auto
qed

lemma map_Inr_length: "map f xs = map Inr ys \<Longrightarrow> length ys = length xs"
  using map_eq_imp_length_eq [of f xs Inr ys] by simp

lemma map_Inr_column:
  assumes "map f xs = map Inr ys"
    and "\<And>x y. x \<in> set xs \<Longrightarrow> f x = Inr y \<Longrightarrow> g y = h x"
  shows "map g ys = map h xs"
  using map_Inr_rel [OF assms(1)] assms(2)
  by (induction rule: list_all2_induct) auto

lemma map_Inr_all:
  assumes "map f xs = map Inr ys"
    and "\<And>x y. x \<in> set xs \<Longrightarrow> f x = Inr y \<Longrightarrow> P y"
  shows "list_all P ys"
  using map_Inr_rel [OF assms(1)] assms(2)
  by (induction rule: list_all2_induct) auto

lemma process_collisions_Inr:
  "process_collisions L metric_cols parquet input_data output_path fs = Inr ((df, p), fs')
   \<Longrightarrow> collisions_query L metric_cols input_data = Inr df \<and> p = output_path"
  by (auto simp: process_collisions_def bind_err_def split: sum.splits)

lemma process_weather_Inr:
  "process_weather L parquet input_data output_path fs = Inr ((df, p), fs')
   \<Longrightarrow> weather_query L input_data = Inr df \<and> p = output_path"
  by (auto simp: process_weather_def bind_err_def split: sum.splits)

lemma collisions_filter_eq:
  "collisions_filter lf = filter (\<lambda>r. CRASH_DATE r \<noteq> None) lf"
  by (simp add: collisions_filter_def filter_rows_def is_not_null_def)

lemma weather_filter_eq:
  "weather_filter lf = filter (\<lambda>r. \<exists>s. DATE r = Some s \<and> ''2020-01-01'' \<le> s) lf"
proof -
  have "(DATE r \<noteq> None \<and> ge_str (DATE r) ''2020-01-01'' = Some True)
        = (\<exists>s. DATE r = Some s \<and> ''2020-01-01'' \<le> s)" for r
    by (cases "DATE r") (simp_all add: ge_str_def)
  then show ?thesis
    unfolding weather_filter_def filter_rows_def is_not_null_def filter_filter
    by (intro filter_cong) auto
qed

lemma collisions_columns_Inr:
  assumes "collisions_columns L metric_cols r = Inr v" and "CRASH_DATE r \<noteq> None"
  shows "cs_crash_date v = CRASH_DATE r \<and> cs_zip_code v = ZIP_CODE r
         \<and> cs_borough v = fill_null ''UNKNOWN'' (BOROUGH r) \<and> cs_date v \<noteq> None"
proof -
  from assms(2) obtain s where s: "CRASH_DATE r = Some s" by auto
  from assms(1) obtain d ms where d: "str_to_date L ''%m/%d/%Y'' (CRASH_DATE r) = Inr d"
    and v: "v = \<lparr> cs_crash_date = CRASH_DATE r,
           cs_borough = fill_null ''UNKNOWN'' (BOROUGH r),
           cs_zip_code = ZIP_CODE r,
           cs_metrics = ms,
           cs_date = d,
           cs_is_weekend = ge_lit (dt_weekday d) 6,
           cs_year = dt_year d,
           cs_month = dt_month d \<rparr>"
    by (auto simp: collisions_columns_def bind_err_def split: sum.splits)
  from d s have "d \<noteq> None"
    by (cases "to_date L ''%m/%d/%Y'' s") (auto simp: str_to_date_def)
  with v show ?thesis by simp
qed

text \<open>
  C4. When \<open>process_collisions\<close> returns, its frame has one row for each input row with a
  non-null \<open>CRASH DATE\<close> and no other, in the input's order, whatever the dates are:
  the text of the date and the zone code are carried over, the locality is filled, and
  every row has a parsed, non-null date. The query itself fails exactly when one of the
  rows that are kept does not convert.
\<close>

theorem C4_null_date_filter:
  "(process_collisions L metric_cols parquet input_data output_path fs = Inr ((df, p), fs') \<longrightarrow>
      length df = length (filter (\<lambda>r. CRASH_DATE r \<noteq> None) input_data)
      \<and> map cs_crash_date df = map CRASH_DATE (filter (\<lambda>r. CRASH_DATE r \<noteq> None) input_data)
      \<and> map cs_zip_code df = map ZIP_CODE (filter (\<lambda>r. CRASH_DATE r \<noteq> None) input_data)
      \<and> map cs_borough df
          = map (\<lambda>r. fill_null ''UNKNOWN'' (BOROUGH r))
                (filter (\<lambda>r. CRASH_DATE r \<noteq> None) input_data)
      \<and> list_all (\<lambda>v. cs_date v \<noteq> None) df)
   \<and> ((\<exists>out. collisions_query L metric_cols input_data = Inr out) \<longleftrightarrow>
        (\<forall>r \<in> set input_data. CRASH_DATE r \<noteq> None \<longrightarrow>
            \<not> isl (collisions_columns L metric_cols r)))"
proof -
  let ?kept = "filter (\<lambda>r. CRASH_DATE r \<noteq> None) input_data"
  have run: "length df = length ?kept
      \<and> map cs_crash_date df = map CRASH_DATE ?kept
      \<and> map cs_zip_code df = map ZIP_CODE ?kept
      \<and> map cs_borough df = map (\<lambda>r. fill_null ''UNKNOWN'' (BOROUGH r)) ?kept
      \<and> list_all (\<lambda>v. cs_date v \<noteq> None) df"
    if "process_collisions L metric_cols parquet input_data output_path fs = Inr ((df, p), fs')"
  proof -
    from that have "collisions_query L metric_cols input_data = Inr df"
      by (simp add: process_collisions_Inr)
    then have m: "map (collisions_columns L metric_cols) ?kept = map Inr df"
      by (simp add: collisions_query_def collisions_filter_eq collect_eq_Inr)
    have b: "cs_crash_date v = CRASH_DATE r \<and> cs_zip_code v = ZIP_CODE r
         \<and> cs_borough v = fill_null ''UNKNOWN'' (BOROUGH r) \<and> cs_date v \<noteq> None"
      if "r \<in> set ?kept" and "collisions_columns L metric_cols r = Inr v" for r v
      using that collisions_columns_Inr [of L metric_cols r v] by simp
    have "length df = length ?kept"
      by (rule map_Inr_length [OF m])
    moreover have "map cs_crash_date df = map CRASH_DATE ?kept"
      by (rule map_Inr_column [OF m]) (use b in blast)
    moreover have "map cs_zip_code df = map ZIP_CODE ?kept"
      by (rule map_Inr_column [OF m]) (use b in blast)
    moreover have "map cs_borough df = map (\<lambda>r. fill_null ''UNKNOWN'' (BOROUGH r)) ?kept"
      by (rule map_Inr_column [OF m]) (use b in blast)
    moreover have "list_all (\<lambda>v. cs_date v \<noteq> None) df"
      by (rule map_Inr_all [OF m]) (use b in blast)
    ultimately show ?thesis by simp
  qed
  have tot: "(\<exists>out. collisions_query L metric_cols input_data = Inr out) \<longleftrightarrow>
        (\<forall>r \<in> set input_data. CRASH_DATE r \<noteq> None \<longrightarrow>
            \<not> isl (collisions_columns L metric_cols r))"
    by (auto simp: collisions_query_def collisions_filter_eq collect_total)
  from run tot show ?thesis by blast
qed

text \<open>The rows dated 01/01/2024, 01/01/2019 and null standardize to exactly two rows.\<close>

theorem C4_null_date_filter_witness:
  "\<not> isl (process_collisions reference_library
             [''number_of_persons_injured'', ''number_of_persons_killed'']
             one_file null_date_collisions [''silver'', ''collisions''] [])
   \<and> length (fst (fst (projr (process_collisions reference_library
             [''number_of_persons_injured'', ''number_of_persons_killed'']
             one_file null_date_collisions [''silver'', ''collisions''] [])))) = 2
   \<and> map cs_crash_date (fst (fst (projr (process_collisions reference_library
             [''number_of_persons_injured'', ''number_of_persons_killed'']
             one_file null_date_collisions [''silver'', ''collisions''] []))))
       = [Some ''01/01/2024'', Some ''01/01/2019'']"
proof -
  let ?df = "[\<lparr>cs_crash_date = Some ''01/01/2024'',
           cs_borough = Some ''MANHATTAN'', cs_zip_code = Some ''10001'',
           cs_metrics =
             [(''number_of_persons_injured'', Some 1),
              (''number_of_persons_killed'', Some 0)],
           cs_date = Some (2024, 1, 1), cs_is_weekend = Some False,
           cs_year = Some 2024, cs_month = Some 1\<rparr>,
        \<lparr>cs_crash_date = Some ''01/01/2019'', cs_borough = Some ''UNKNOWN'',
           cs_zip_code = None,
           cs_metrics =
             [(''number_of_persons_injured'', Some 0),
              (''number_of_persons_killed'', Some 0)],
           cs_date = Some (2019, 1, 1), cs_is_weekend = Some False,
           cs_year = Some 2019, cs_month = Some 1\<rparr>]"
  let ?fs = "[([''silver''], Dir), ([''silver'', ''collisions''], Dir),
       ([''silver'', ''collisions'', ''part''], Dir),
       ([''silver'', ''collisions'', ''part'', ''0.parquet''], File ?df)]"
  have run: "process_collisions reference_library
             [''number_of_persons_injured'', ''number_of_persons_killed'']
             one_file null_date_collisions [''silver'', ''collisions''] []
           = Inr ((?df, [''silver'', ''collisions'']), ?fs)"
    by code_simp
  have kept: "filter (\<lambda>r. CRASH_DATE r \<noteq> None) null_date_collisions
              = [null_date_collisions ! 0, null_date_collisions ! 1]"
    by (simp add: null_date_collisions_def)
  have dates: "map CRASH_DATE [null_date_collisions ! 0, null_date_collisions ! 1]
               = [Some ''01/01/2024'', Some ''01/01/2019'']"
    by (simp add: null_date_collisions_def)
  from C4_null_date_filter [of reference_library
      "[''number_of_persons_injured'', ''number_of_persons_killed'']" one_file
      null_date_collisions "[''silver'', ''collisions'']" "[]" ?df "[''silver'', ''collisions'']" ?fs]
    run
  have "length ?df = length (filter (\<lambda>r. CRASH_DATE r \<noteq> None) null_date_collisions)
      \<and> map cs_crash_date ?df
          = map CRASH_DATE (filter (\<lambda>r. CRASH_DATE r \<noteq> None) null_date_collisions)"
    by blast
  then show ?thesis
    unfolding run kept dates by simp
qed

lemma cast_f64_Inr:
  assumes "cast_f64 L c = Inr v"
  shows "v = Option.bind c (to_f64 L) \<and> (\<forall>s. c = Some s \<longrightarrow> to_f64 L s \<noteq> None)"
proof (cases c)
  case None
  with assms show ?thesis by (auto simp: cast_f64_def)
next
  case (Some s)
  with assms show ?thesis by (cases "to_f64 L s") (auto simp: cast_f64_def)
qed

lemma fog_flag:
  "fill_null False (any_horizontal (eq_lit a 1) (eq_lit b 1)) = Some (a = Some 1 \<or> b = Some 1)"
proof -
  have k: "fill_null False (kleene_or x y) = Some (x = Some True \<or> y = Some True)" for x y
    by (cases "(x, y)" rule: kleene_or.cases) (auto simp: fill_null_def)
  have e: "(eq_lit c 1 = Some True) = (c = Some 1)" for c
    by (cases c) (auto simp: eq_lit_def)
  show ?thesis by (simp add: any_horizontal_def k e)
qed

lemma weather_columns_Inr:
  assumes "weather_columns L r = Inr w"
  shows "w_temp_max_c w = map_option (\<lambda>x. round_f64 (round_mode L) 1 (x / 10))
                             (Option.bind (strip_chars (TMAX r)) (to_f64 L))"
    and "w_temp_min_c w = map_option (\<lambda>x. round_f64 (round_mode L) 1 (x / 10))
                             (Option.bind (strip_chars (TMIN r)) (to_f64 L))"
    and "w_precipitation_mm w = map_option (\<lambda>x. x / 10)
                             (Option.bind (strip_chars (PRCP r)) (to_f64 L))"
    and "\<forall>s. strip_chars (TMAX r) = Some s \<longrightarrow> to_f64 L s \<noteq> None"
    and "\<forall>s. strip_chars (TMIN r) = Some s \<longrightarrow> to_f64 L s \<noteq> None"
    and "\<forall>s. strip_chars (PRCP r) = Some s \<longrightarrow> to_f64 L s \<noteq> None"
    and "w_is_foggy w = Some (cast_i32_lenient L (strip_chars (WT01 r)) = Some 1
                              \<or> cast_i32_lenient L (strip_chars (WT02 r)) = Some 1)"
proof -
  from assms obtain d tmax tmin prcp snow where
    c: "cast_f64 L (strip_chars (TMAX r)) = Inr tmax"
       "cast_f64 L (strip_chars (TMIN r)) = Inr tmin"
       "cast_f64 L (strip_chars (PRCP r)) = Inr prcp"
    and w: "w = \<lparr> w_date = d,
           w_temp_max_c = map_option (\<lambda>x. round_f64 (round_mode L) 1 (x / 10)) tmax,
           w_temp_min_c = map_option (\<lambda>x. round_f64 (round_mode L) 1 (x / 10)) tmin,
           w_precipitation_mm = map_option (\<lambda>x. x / 10) prcp,
           w_snow_mm = snow,
           w_is_foggy =
             fill_null False
               (any_horizontal (eq_lit (cast_i32_lenient L (strip_chars (WT01 r))) 1)
                               (eq_lit (cast_i32_lenient L (strip_chars (WT02 r))) 1)),
           w_has_rain = fill_null False (gt_lit prcp 0),
           w_has_snow = fill_null False (gt_lit snow 0),
           w_year = dt_year d,
           w_month = dt_month d \<rparr>"
    by (auto simp: weather_columns_def bind_err_def split: sum.splits)
  note f = cast_f64_Inr [OF c(1)] cast_f64_Inr [OF c(2)] cast_f64_Inr [OF c(3)]
  show "w_temp_max_c w = map_option (\<lambda>x. round_f64 (round_mode L) 1 (x / 10))
                             (Option.bind (strip_chars (TMAX r)) (to_f64 L))"
    using f(1) by (simp add: w)
  show "w_temp_min_c w = map_option (\<lambda>x. round_f64 (round_mode L) 1 (x / 10))
                             (Option.bind (strip_chars (TMIN r)) (to_f64 L))"
    using f(2) by (simp add: w)
  show "w_precipitation_mm w = map_option (\<lambda>x. x / 10)
                             (Option.bind (strip_chars (PRCP r)) (to_f64 L))"
    using f(3) by (simp add: w)
  show "\<forall>s. strip_chars (TMAX r) = Some s \<longrightarrow> to_f64 L s \<noteq> None"
    using f(1) by blast
  show "\<forall>s. strip_chars (TMIN r) = Some s \<longrightarrow> to_f64 L s \<noteq> None"
    using f(2) by blast
  show "\<forall>s. strip_chars (PRCP r) = Some s \<longrightarrow> to_f64 L s \<noteq> None"
    using f(3) by blast
  show "w_is_foggy w = Some (cast_i32_lenient L (strip_chars (WT01 r)) = Some 1
                              \<or> cast_i32_lenient L (strip_chars (WT02 r)) = Some 1)"
    by (simp add: w fog_flag)
qed

lemma round_int_near: "\<bar>of_int (round_int mode z) - z\<bar> \<le> 1 / 2"
proof -
  have "of_int \<lfloor>z\<rfloor> \<le> z" "z < of_int \<lfloor>z\<rfloor> + 1"
    by linarith+
  then show ?thesis
    by (cases mode) (auto simp: round_int_def Let_def)
qed

lemma round_f64_one_decimal:
  "(\<exists>k::int. round_f64 mode 1 y = of_int k / 10) \<and> \<bar>round_f64 mode 1 y - y\<bar> \<le> 1 / 20"
proof
  show "\<exists>k::int. round_f64 mode 1 y = of_int k / 10"
    by (auto simp: round_f64_def)
  have "\<bar>of_int (round_int mode (y * 10)) - y * 10\<bar> \<le> 1 / 2"
    by (rule round_int_near)
  then show "\<bar>round_f64 mode 1 y - y\<bar> \<le> 1 / 20"
    by (simp add: round_f64_def abs_le_iff field_simps)
qed

lemma dropWhile_all: "list_all P a \<Longrightarrow> dropWhile P (a @ xs) = dropWhile P xs"
  by (induction a) auto

lemma strip_chars_surrounding:
  assumes "list_all is_space a" and "list_all is_space b"
  shows "strip_chars (Some (a @ s @ b)) = strip_chars (Some s)"
proof -
  let ?t = "dropWhile is_space s"
  have 1: "dropWhile is_space (a @ s @ b) = dropWhile is_space (s @ b)"
    using assms(1) by (rule dropWhile_all)
  have rb: "list_all is_space (rev b)"
    using assms(2) by (simp add: list_all_iff)
  have lhs: "strip_chars (Some (a @ s @ b))
             = Some (rev (dropWhile is_space (rev (dropWhile is_space (s @ b)))))"
    by (simp only: strip_chars_def option.map 1)
  have rhs: "strip_chars (Some s) = Some (rev (dropWhile is_space (rev ?t)))"
    by (simp only: strip_chars_def option.map)
  show ?thesis
  proof (cases "?t = []")
    case True
    then have "list_all is_space s"
      by (simp add: dropWhile_eq_Nil_conv list_all_iff)
    then have "dropWhile is_space (s @ b) = dropWhile is_space b"
      by (rule dropWhile_all)
    also have "\<dots> = []"
      using assms(2) by (simp add: dropWhile_eq_Nil_conv list_all_iff)
    finally have "dropWhile is_space (s @ b) = []" .
    with True show ?thesis
      by (simp only: lhs rhs)
  next
    case False
    then have "dropWhile is_space (s @ b) = ?t @ b"
      by (auto simp: dropWhile_append dropWhile_eq_Nil_conv)
    then have "rev (dropWhile is_space (s @ b)) = rev b @ rev ?t"
      by simp
    then have "dropWhile is_space (rev (dropWhile is_space (s @ b)))
               = dropWhile is_space (rev ?t)"
      using dropWhile_all [OF rb, of "rev ?t"] by simp
    then show ?thesis
      unfolding lhs rhs by simp
  qed
qed

lemma weather_query_Inr:
  "weather_query L lf = Inr df \<Longrightarrow> map (weather_columns L) (weather_filter lf) = map Inr df"
  by (simp add: weather_query_def collect_eq_Inr)

text \<open>
  C5. When \<open>process_weather\<close> returns, the rows of its frame are those of the surviving
  input rows, and in each the two temperatures are the stripped text converted to a
  number, divided by 10 and rounded to one decimal, the precipitation the stripped text
  converted and divided by 10; every text that is present did convert. Rounding to one
  decimal gives a multiple of one tenth at most half a tenth away, whatever the
  tie-breaking rule; stripping makes surrounding white space irrelevant.
\<close>

theorem C5_weather_units:
  "(process_weather L parquet input_data output_path fs = Inr ((df, p), fs') \<longrightarrow>
      map w_temp_max_c df
        = map (\<lambda>r. map_option (\<lambda>x. round_f64 (round_mode L) 1 (x / 10))
                     (Option.bind (strip_chars (TMAX r)) (to_f64 L))) (weather_filter input_data)
      \<and> map w_temp_min_c df
        = map (\<lambda>r. map_option (\<lambda>x. round_f64 (round_mode L) 1 (x / 10))
                     (Option.bind (strip_chars (TMIN r)) (to_f64 L))) (weather_filter input_data)
      \<and> map w_precipitation_mm df
        = map (\<lambda>r. map_option (\<lambda>x. x / 10)
                     (Option.bind (strip_chars (PRCP r)) (to_f64 L))) (weather_filter input_data)
      \<and> (\<forall>r \<in> set (weather_filter input_data). \<forall>s.
            strip_chars (TMAX r) = Some s \<or> strip_chars (TMIN r) = Some s
            \<or> strip_chars (PRCP r) = Some s \<longrightarrow> to_f64 L s \<noteq> None))
   \<and> (\<forall>mode y. (\<exists>k::int. round_f64 mode 1 y = of_int k / 10)
                 \<and> \<bar>round_f64 mode 1 y - y\<bar> \<le> 1 / 20)
   \<and> (\<forall>a b s. list_all is_space a \<and> list_all is_space b \<longrightarrow>
                 strip_chars (Some (a @ s @ b)) = strip_chars (Some s))"
proof -
  have run: "map w_temp_max_c df
        = map (\<lambda>r. map_option (\<lambda>x. round_f64 (round_mode L) 1 (x / 10))
                     (Option.bind (strip_chars (TMAX r)) (to_f64 L))) (weather_filter input_data)
      \<and> map w_temp_min_c df
        = map (\<lambda>r. map_option (\<lambda>x. round_f64 (round_mode L) 1 (x / 10))
                     (Option.bind (strip_chars (TMIN r)) (to_f64 L))) (weather_filter input_data)
      \<and> map w_precipitation_mm df
        = map (\<lambda>r. map_option (\<lambda>x. x / 10)
                     (Option.bind (strip_chars (PRCP r)) (to_f64 L))) (weather_filter input_data)
      \<and> (\<forall>r \<in> set (weather_filter input_data). \<forall>s.
            strip_chars (TMAX r) = Some s \<or> strip_chars (TMIN r) = Some s
            \<or> strip_chars (PRCP r) = Some s \<longrightarrow> to_f64 L s \<noteq> None)"
    if "process_weather L parquet input_data output_path fs = Inr ((df, p), fs')"
  proof -
    from that have m: "map (weather_columns L) (weather_filter input_data) = map Inr df"
      by (simp add: process_weather_Inr weather_query_Inr)
    have 1: "map w_temp_max_c df
        = map (\<lambda>r. map_option (\<lambda>x. round_f64 (round_mode L) 1 (x / 10))
                     (Option.bind (strip_chars (TMAX r)) (to_f64 L))) (weather_filter input_data)"
      by (rule map_Inr_column [OF m]) (rule weather_columns_Inr(1))
    have 2: "map w_temp_min_c df
        = map (\<lambda>r. map_option (\<lambda>x. round_f64 (round_mode L) 1 (x / 10))
                     (Option.bind (strip_chars (TMIN r)) (to_f64 L))) (weather_filter input_data)"
      by (rule map_Inr_column [OF m]) (rule weather_columns_Inr(2))
    have 3: "map w_precipitation_mm df
        = map (\<lambda>r. map_option (\<lambda>x. x / 10)
                     (Option.bind (strip_chars (PRCP r)) (to_f64 L))) (weather_filter input_data)"
      by (rule map_Inr_column [OF m]) (rule weather_columns_Inr(3))
    have 4: "to_f64 L s \<noteq> None"
      if r: "r \<in> set (weather_filter input_data)"
        and s: "strip_chars (TMAX r) = Some s \<or> strip_chars (TMIN r) = Some s
                \<or> strip_chars (PRCP r) = Some s" for r s
    proof -
      from map_Inr_rel [OF m] r obtain w where "weather_columns L r = Inr w"
        by (auto simp: list_all2_conv_all_nth in_set_conv_nth)
      from weather_columns_Inr(4-6) [OF this] s show ?thesis by blast
    qed
    from 1 2 3 4 show ?thesis by blast
  qed
  from run round_f64_one_decimal strip_chars_surrounding show ?thesis
    by blast
qed

lemma weather_filter_map:
  "weather_filter (map (\<lambda>r. r\<lparr>WT01 := a r, WT02 := b r\<rparr>) lf)
   = map (\<lambda>r. r\<lparr>WT01 := a r, WT02 := b r\<rparr>) (weather_filter lf)"
  by (simp add: weather_filter_def filter_rows_def filter_map comp_def)

lemma weather_columns_isl:
  "isl (weather_columns L (r\<lparr>WT01 := x, WT02 := y\<rparr>)) = isl (weather_columns L r)"
  by (simp add: weather_columns_def bind_err_def split: sum.splits)

lemma isl_collect: "isl (collect xs) \<longleftrightarrow> (\<exists>x \<in> set xs. isl x)"
  using collect_total [of xs] by (cases "collect xs") auto

text \<open>
  C6. When \<open>process_weather\<close> returns, \<open>is_foggy\<close> of each row is true exactly when
  \<open>WT01\<close> or \<open>WT02\<close> of its input row reads as the integer 1. Whether the query
  raises does not depend on the two columns: replacing them by any cells, null or
  unreadable ones included, leaves a failing query failing and a returning one returning.
\<close>

theorem C6_fog_flag:
  "(process_weather L parquet input_data output_path fs = Inr ((df, p), fs') \<longrightarrow>
      map w_is_foggy df
        = map (\<lambda>r. Some (cast_i32_lenient L (strip_chars (WT01 r)) = Some 1
                         \<or> cast_i32_lenient L (strip_chars (WT02 r)) = Some 1))
              (weather_filter input_data))
   \<and> (\<forall>a b. isl (weather_query L (map (\<lambda>r. r\<lparr>WT01 := a r, WT02 := b r\<rparr>) input_data))
            = isl (weather_query L input_data))"
proof -
  have run: "map w_is_foggy df
        = map (\<lambda>r. Some (cast_i32_lenient L (strip_chars (WT01 r)) = Some 1
                         \<or> cast_i32_lenient L (strip_chars (WT02 r)) = Some 1))
              (weather_filter input_data)"
    if "process_weather L parquet input_data output_path fs = Inr ((df, p), fs')"
  proof -
    from that have m: "map (weather_columns L) (weather_filter input_data) = map Inr df"
      by (simp add: process_weather_Inr weather_query_Inr)
    show ?thesis
      by (rule map_Inr_column [OF m]) (rule weather_columns_Inr(7))
  qed
  have ind: "isl (weather_query L (map (\<lambda>r. r\<lparr>WT01 := a r, WT02 := b r\<rparr>) input_data))
            = isl (weather_query L input_data)" for a b
    by (simp add: weather_query_def weather_filter_map isl_collect weather_columns_isl)
  from run ind show ?thesis by blast
qed

text \<open>
  The weather frame of the test suite: raw \<open>TMAX\<close> 250 gives 25.0 and raw \<open>PRCP\<close> 50
  gives 5.0.
\<close>

theorem C5_weather_units_witness:
  "\<not> isl (process_weather reference_library one_file sample_weather_raw [''silver'', ''weather''] [])
   \<and> map w_temp_max_c (fst (fst (projr
         (process_weather reference_library one_file sample_weather_raw [''silver'', ''weather''] []))))
       = [Some 25, Some (- 5)]
   \<and> map w_precipitation_mm (fst (fst (projr
         (process_weather reference_library one_file sample_weather_raw [''silver'', ''weather''] []))))
       = [Some 5, Some 0]"
proof -
  let ?df = "[\<lparr>w_date = Some (2024, 1, 1), w_temp_max_c = Some 25,
           w_temp_min_c = Some 15, w_precipitation_mm = Some 5,
           w_snow_mm = Some 0, w_is_foggy = Some True,
           w_has_rain = Some True, w_has_snow = Some False,
           w_year = Some 2024, w_month = Some 1\<rparr>,
        \<lparr>w_date = Some (2024, 1, 2), w_temp_max_c = Some (- 5),
           w_temp_min_c = Some (- 10), w_precipitation_mm = Some 0,
           w_snow_mm = Some 10, w_is_foggy = Some True,
           w_has_rain = Some False, w_has_snow = Some True,
           w_year = Some 2024, w_month = Some 1\<rparr>]"
  let ?fs = "[([''silver''], Dir), ([''silver'', ''weather''], Dir),
       ([''silver'', ''weather'', ''part''], Dir),
       ([''silver'', ''weather'', ''part'', ''0.parquet''], File ?df)]"
  have run: "process_weather reference_library one_file sample_weather_raw [''silver'', ''weather''] []
             = Inr ((?df, [''silver'', ''weather'']), ?fs)"
    by code_simp
  have tmax: "map (\<lambda>r. map_option (\<lambda>x. round_f64 (round_mode reference_library) 1 (x / 10))
                     (Option.bind (strip_chars (TMAX r)) (to_f64 reference_library)))
                (weather_filter sample_weather_raw) = [Some 25, Some (- 5)]"
    by code_simp
  have prcp: "map (\<lambda>r. map_option (\<lambda>x. x / 10)
                     (Option.bind (strip_chars (PRCP r)) (to_f64 reference_library)))
                (weather_filter sample_weather_raw) = [Some 5, Some 0]"
    by code_simp
  from C5_weather_units [of reference_library one_file sample_weather_raw
      "[''silver'', ''weather'']" "[]" ?df "[''silver'', ''weather'']" ?fs] run
  have "map w_temp_max_c ?df
        = map (\<lambda>r. map_option (\<lambda>x. round_f64 (round_mode reference_library) 1 (x / 10))
                     (Option.bind (strip_chars (TMAX r)) (to_f64 reference_library)))
              (weather_filter sample_weather_raw)
      \<and> map w_precipitation_mm ?df
        = map (\<lambda>r. map_option (\<lambda>x. x / 10)
                     (Option.bind (strip_chars (PRCP r)) (to_f64 reference_library)))
              (weather_filter sample_weather_raw)"
    by blast
  then show ?thesis
    unfolding run tmax prcp by simp
qed

text \<open>
  \<open>WT01\<close>, \<open>WT02\<close> = 1, 0 and 0, 1 give fog, 0, 0 gives none, and neither does a row
  with a null and an unreadable text.
\<close>

theorem C6_fog_flag_witness:
  "\<not> isl (process_weather reference_library one_file fog_weather_raw [''silver'', ''weather''] [])
   \<and> map w_is_foggy (fst (fst (projr
         (process_weather reference_library one_file fog_weather_raw [''silver'', ''weather''] []))))
       = [Some True, Some True, Some False, Some False]"
proof -
  let ?row = "\<lambda>d f. \<lparr>w_date = Some (2024, 1, d), w_temp_max_c = None, w_temp_min_c = None,
         w_precipitation_mm = None, w_snow_mm = None,
         w_is_foggy = Some f, w_has_rain = Some False,
         w_has_snow = Some False, w_year = Some 2024, w_month = Some 1\<rparr>"
  let ?df = "[?row 1 True, ?row 2 True, ?row 3 False, ?row 4 False]"
  let ?fs = "[([''silver''], Dir), ([''silver'', ''weather''], Dir),
       ([''silver'', ''weather'', ''part''], Dir),
       ([''silver'', ''weather'', ''part'', ''0.parquet''], File ?df)]"
  have run: "process_weather reference_library one_file fog_weather_raw [''silver'', ''weather''] []
             = Inr ((?df, [''silver'', ''weather'']), ?fs)"
    by code_simp
  have fog: "map (\<lambda>r. Some (cast_i32_lenient reference_library (strip_chars (WT01 r)) = Some 1
                         \<or> cast_i32_lenient reference_library (strip_chars (WT02 r)) = Some 1))
              (weather_filter fog_weather_raw) = [Some True, Some True, Some False, Some False]"
    by code_simp
  from C6_fog_flag [of reference_library one_file fog_weather_raw
      "[''silver'', ''weather'']" "[]" ?df "[''silver'', ''weather'']" ?fs] run
  have "map w_is_foggy ?df
        = map (\<lambda>r. Some (cast_i32_lenient reference_library (strip_chars (WT01 r)) = Some 1
                         \<or> cast_i32_lenient reference_library (strip_chars (WT02 r)) = Some 1))
              (weather_filter fog_weather_raw)"
    by blast
  then show ?thesis
    unfolding run fog by simp
qed


section \<open>Properties of the utilities\<close>










lemma null_checks_prefix: "prefix lg (null_checks df name cols lg)"
proof (induction cols arbitrary: lg)
  case Nil
  show ?case by simp
next
  case (Cons col cols)
  show ?case
    using Cons [of "lg @ [(WARNING, Skipping_missing_column col name)]"]
          Cons [of "lg @ [(WARNING, Column_has_nulls col name (null_count df col))]"]
          Cons [of lg]
    by (auto dest: append_prefixD)
qed

lemma null_checks_set:
  "set (null_checks df name cols lg) =
     set lg
     \<union> {(WARNING, Skipping_missing_column col name) | col. col \<in> set cols \<and> col \<notin> set (columns df)}
     \<union> {(WARNING, Column_has_nulls col name (null_count df col)) | col.
          col \<in> set cols \<and> col \<in> set (columns df) \<and> 0 < null_count df col}"
  by (induction cols arbitrary: lg) auto

text \<open>
  C8. \<open>validate_dataframe\<close> raises exactly when the frame has no rows. Otherwise it
  returns with the frame as it was given; the log is only extended; a critical column
  that is missing, and one that holds nulls, each leave a warning in the log.
\<close>

theorem C8_validate_dataframe:
  "((\<exists>e. fst (validate_dataframe df name critical_cols lg) = Inl e) \<longleftrightarrow> height df = 0)
   \<and> (height df \<noteq> 0 \<longrightarrow> fst (validate_dataframe df name critical_cols lg) = Inr df)
   \<and> prefix lg (snd (validate_dataframe df name critical_cols lg))
   \<and> (\<forall>cols col. height df \<noteq> 0 \<and> critical_cols = Some cols \<and> col \<in> set cols
         \<and> col \<notin> set (columns df) \<longrightarrow>
         (WARNING, Skipping_missing_column col name)
           \<in> set (snd (validate_dataframe df name critical_cols lg)))
   \<and> (\<forall>cols col. height df \<noteq> 0 \<and> critical_cols = Some cols \<and> col \<in> set cols
         \<and> col \<in> set (columns df) \<and> 0 < null_count df col \<longrightarrow>
         (WARNING, Column_has_nulls col name (null_count df col))
           \<in> set (snd (validate_dataframe df name critical_cols lg)))"
proof (intro conjI allI impI)
  show "(\<exists>e. fst (validate_dataframe df name critical_cols lg) = Inl e) \<longleftrightarrow> height df = 0"
    by (simp add: validate_dataframe_def Let_def)
  show "fst (validate_dataframe df name critical_cols lg) = Inr df" if "height df \<noteq> 0"
    using that by (simp add: validate_dataframe_def Let_def)
  show "prefix lg (snd (validate_dataframe df name critical_cols lg))"
  proof -
    have "prefix lg (lg @ [(INFO, Running_check name)])" by simp
    moreover have "prefix (lg @ [(INFO, Running_check name)])
                     (null_checks df name cols (lg @ [(INFO, Running_check name)]))" for cols
      by (rule null_checks_prefix)
    ultimately have "prefix lg (null_checks df name cols (lg @ [(INFO, Running_check name)]))"
      for cols
      by (rule prefix_order.trans)
    then show ?thesis
      by (auto simp: validate_dataframe_def Let_def split: option.splits
          intro: prefix_order.trans)
  qed
next
  fix cols col
  assume a: "height df \<noteq> 0 \<and> critical_cols = Some cols \<and> col \<in> set cols
         \<and> col \<notin> set (columns df)"
  then have "cols \<noteq> []" by auto
  with a show "(WARNING, Skipping_missing_column col name)
           \<in> set (snd (validate_dataframe df name critical_cols lg))"
    by (auto simp: validate_dataframe_def Let_def null_checks_set)
next
  fix cols col
  assume a: "height df \<noteq> 0 \<and> critical_cols = Some cols \<and> col \<in> set cols
         \<and> col \<in> set (columns df) \<and> 0 < null_count df col"
  then have "cols \<noteq> []" by auto
  with a show "(WARNING, Column_has_nulls col name (null_count df col))
           \<in> set (snd (validate_dataframe df name critical_cols lg))"
    by (auto simp: validate_dataframe_def Let_def null_checks_set)
qed

text \<open>
  A frame of two rows with a null date and no \<open>BOROUGH\<close> column passes with two
  warnings; a frame without rows raises.
\<close>

theorem C8_validate_dataframe_witness:
  "fst (validate_dataframe dq_sample ''Collisions Bronze'' (Some [''CRASH DATE'', ''BOROUGH'']) [])
     = Inr dq_sample
   \<and> snd (validate_dataframe dq_sample ''Collisions Bronze'' (Some [''CRASH DATE'', ''BOROUGH'']) [])
     = [(INFO, Running_check ''Collisions Bronze''),
        (WARNING, Column_has_nulls ''CRASH DATE'' ''Collisions Bronze'' 1),
        (WARNING, Skipping_missing_column ''BOROUGH'' ''Collisions Bronze''),
        (INFO, Check_passed ''Collisions Bronze'' 2)]
   \<and> fst (validate_dataframe [(''CRASH DATE'', [] :: string option list)] ''Collisions Bronze''
            (Some [''CRASH DATE'']) []) = Inl ValueError"
proof -
  have h: "height dq_sample \<noteq> 0"
    by (simp add: dq_sample_def height_def)
  have h0: "height [(''CRASH DATE'', [] :: string option list)] = 0"
    by (simp add: height_def)
  have 1: "fst (validate_dataframe dq_sample ''Collisions Bronze''
                  (Some [''CRASH DATE'', ''BOROUGH'']) []) = Inr dq_sample"
    using C8_validate_dataframe [of dq_sample "''Collisions Bronze''"
        "Some [''CRASH DATE'', ''BOROUGH'']" "[]"] h
    by blast
  have 2: "snd (validate_dataframe dq_sample ''Collisions Bronze''
                  (Some [''CRASH DATE'', ''BOROUGH'']) [])
     = [(INFO, Running_check ''Collisions Bronze''),
        (WARNING, Column_has_nulls ''CRASH DATE'' ''Collisions Bronze'' 1),
        (WARNING, Skipping_missing_column ''BOROUGH'' ''Collisions Bronze''),
        (INFO, Check_passed ''Collisions Bronze'' 2)]"
    by (simp add: validate_dataframe_def Let_def dq_sample_def height_def columns_def
        null_count_def)
  have 3: "fst (validate_dataframe [(''CRASH DATE'', [] :: string option list)]
                  ''Collisions Bronze'' (Some [''CRASH DATE'']) []) = Inl ValueError"
    by (simp add: validate_dataframe_def Let_def h0)
  from 1 2 3 show ?thesis by simp
qed

section \<open>Properties of the persistence\<close>

lemma wf_fs_ancestors:
  assumes "wf_fs fs" and "lookup fs q \<noteq> None" and "strict_prefix p q"
  shows "is_dir fs p"
proof (cases "q = []")
  case True
  with assms(3) show ?thesis by simp
next
  case False
  with assms(2) obtain n where "(q, n) \<in> set fs"
    by (auto simp: lookup_def dest: map_of_SomeD)
  with assms(1) have "\<forall>p \<in> set (prefixes q). p = q \<or> is_dir fs p"
    by (auto simp: wf_fs_def list_all_iff)
  with assms(3) show ?thesis
    by (auto simp: strict_prefix_def)
qed

lemma lookup_rmtree:
  "lookup (rmtree p fs) q = (if prefix p q \<and> q \<noteq> [] then None else lookup fs q)"
proof -
  have "map_of (filter (\<lambda>(k, n). \<not> prefix p k) fs) q
        = (if prefix p q then None else map_of fs q)"
    by (induction fs) auto
  then show ?thesis
    by (simp add: lookup_def rmtree_def)
qed

lemma lookup_update:
  "lookup (AList.update k n fs) q = (if q = [] then Some Dir else if q = k then Some n else lookup fs q)"
  by (simp add: lookup_def update_conv')

lemma lookup_fold_update:
  "lookup (fold (\<lambda>q. AList.update q Dir) qs fs) q
   = (if q \<in> set qs then Some Dir else lookup fs q)"
proof (induction qs arbitrary: fs)
  case Nil
  show ?case by simp
next
  case (Cons a qs)
  show ?case
    by (simp add: Cons lookup_update) (simp add: lookup_def)
qed

lemma set_tl_prefixes: "set (tl (prefixes p)) = {q. prefix q p \<and> q \<noteq> []}"
proof -
  have "prefixes p = [] # tl (prefixes p)"
    by (cases p) simp_all
  moreover have "distinct (prefixes p)" by (rule distinct_prefixes)
  ultimately have "[] \<notin> set (tl (prefixes p))"
    by (metis distinct.simps(2))
  moreover have "set (prefixes p) = insert [] (set (tl (prefixes p)))"
    using \<open>prefixes p = [] # tl (prefixes p)\<close> by (metis list.simps(15))
  ultimately show ?thesis
    by (auto simp: set_eq_iff in_set_prefixes [symmetric] simp del: in_set_prefixes)
qed

lemma lookup_mkdir_parents:
  assumes "mkdir_parents p fs = Inr fs'"
  shows "lookup fs' q = (if prefix q p then Some Dir else lookup fs q)"
proof -
  from assms have fs': "fs' = fold (\<lambda>q. AList.update q Dir) (tl (prefixes p)) fs"
    by (auto simp: mkdir_parents_def split: if_splits)
  have "lookup fs' q = (if q \<in> set (tl (prefixes p)) then Some Dir else lookup fs q)"
    unfolding fs' by (rule lookup_fold_update)
  then show ?thesis
    by (auto simp: set_tl_prefixes lookup_def)
qed

lemma lookup_write_file:
  assumes "write_file p c fs = Inr fs'"
  shows "lookup fs' q = (if q = p then Some (File c) else lookup fs q)"
proof -
  from assms have fs': "fs' = AList.update p (File c) fs" and "\<not> is_dir fs p"
    by (auto simp: write_file_def split: if_splits)
  then have "p \<noteq> []" by (auto simp: is_dir_def lookup_def)
  moreover have "lookup fs' q
      = (if q = [] then Some Dir else if q = p then Some (File c) else lookup fs q)"
    unfolding fs' by (rule lookup_update)
  ultimately show ?thesis
    by (auto simp: lookup_def)
qed

lemma lookup_clean_output_directory:
  assumes "wf_fs fs" and "clean_output_directory dest fs = Inr fs1" and "prefix dest q"
  shows "lookup fs1 q = (if q = dest then Some Dir else None)"
proof (cases "path_exists fs dest \<and> is_dir fs dest")
  case True
  with assms(2) have m: "mkdir_parents dest (rmtree dest fs) = Inr fs1"
    by (simp add: clean_output_directory_def)
  show ?thesis
  proof (cases "q = dest")
    case True
    then show ?thesis by (simp add: lookup_mkdir_parents [OF m])
  next
    case False
    with assms(3) have "\<not> prefix q dest" "q \<noteq> []"
      by (auto dest: prefix_order.antisym)
    with assms(3) False show ?thesis
      by (simp add: lookup_mkdir_parents [OF m] lookup_rmtree)
  qed
next
  case False
  with assms(2) have m: "mkdir_parents dest fs = Inr fs1"
    by (simp add: clean_output_directory_def)
  show ?thesis
  proof (cases "q = dest")
    case True
    then show ?thesis by (simp add: lookup_mkdir_parents [OF m])
  next
    case neq: False
    with assms(3) have np: "\<not> prefix q dest" and sp: "strict_prefix dest q"
      by (auto dest: prefix_order.antisym simp: strict_prefix_def)
    have "lookup fs q = None"
    proof (rule ccontr)
      assume "lookup fs q \<noteq> None"
      from wf_fs_ancestors [OF assms(1) this sp] have "is_dir fs dest" .
      with False show False by (simp add: path_exists_def is_dir_def)
    qed
    with np neq show ?thesis
      by (simp add: lookup_mkdir_parents [OF m])
  qed
qed

lemma run_Cons_Inr:
  "run (s # ss) fs = Inr fs' \<longleftrightarrow> (\<exists>fs1. s fs = Inr fs1 \<and> run ss fs1 = Inr fs')"
  by (cases "s fs") (simp_all add: bind_err_def)

lemma wf_fs_iff:
  "wf_fs fs \<longleftrightarrow> (\<forall>q p. lookup fs q \<noteq> None \<and> strict_prefix p q \<longrightarrow> is_dir fs p)"
proof
  assume "wf_fs fs"
  then show "\<forall>q p. lookup fs q \<noteq> None \<and> strict_prefix p q \<longrightarrow> is_dir fs p"
    by (blast intro: wf_fs_ancestors)
next
  assume a: "\<forall>q p. lookup fs q \<noteq> None \<and> strict_prefix p q \<longrightarrow> is_dir fs p"
  have "p = q \<or> is_dir fs p" if "(q, n) \<in> set fs" and "prefix p q" for q n p
  proof (cases "p = q")
    case True
    then show ?thesis by simp
  next
    case False
    with that(2) have sp: "strict_prefix p q" by (simp add: strict_prefix_def)
    from that(1) have "map_of fs q \<noteq> None"
      by (metis map_of_eq_None_iff fst_conv image_eqI)
    then have "lookup fs q \<noteq> None" by (simp add: lookup_def)
    with a sp show ?thesis by blast
  qed
  then have "\<forall>x \<in> set fs. \<forall>p \<in> set (prefixes (fst x)). p = fst x \<or> is_dir fs p"
    by (metis in_set_prefixes prod.collapse)
  then show "wf_fs fs"
    by (simp add: wf_fs_def list_all_iff case_prod_beta)
qed

lemma wf_fs_rmtree: "wf_fs fs \<Longrightarrow> wf_fs (rmtree p fs)"
  unfolding wf_fs_iff is_dir_def lookup_rmtree
  by (auto simp: strict_prefix_def split: if_splits dest: prefix_order.trans)

lemma wf_fs_mkdir_parents:
  assumes "wf_fs fs" and "mkdir_parents p fs = Inr fs'"
  shows "wf_fs fs'"
  using assms(1) unfolding wf_fs_iff is_dir_def lookup_mkdir_parents [OF assms(2)]
  by (auto simp: strict_prefix_def split: if_splits dest: prefix_order.trans)

lemma wf_fs_clean_output_directory:
  assumes "wf_fs fs" and "clean_output_directory dest fs = Inr fs'"
  shows "wf_fs fs'"
  using assms wf_fs_rmtree [of fs dest]
  by (auto simp: clean_output_directory_def intro: wf_fs_mkdir_parents split: if_splits)

lemma wf_fs_write_file:
  assumes "wf_fs fs" and "write_file p c fs = Inr fs'"
  shows "wf_fs fs'"
proof -
  from assms(2) have nd: "\<not> is_dir fs p" and par: "is_dir fs (butlast p)"
    by (auto simp: write_file_def split: if_splits)
  have anc: "is_dir fs a" if "strict_prefix a p" for a
  proof (cases "a = butlast p")
    case True
    with par show ?thesis by simp
  next
    case False
    from that obtain z where "p = a @ z" and "z \<noteq> []"
      by (auto simp: strict_prefix_def prefix_def)
    then have "butlast p = a @ butlast z"
      by (simp add: butlast_append)
    then have "prefix a (butlast p)"
      by simp
    with False have "strict_prefix a (butlast p)" by (simp add: strict_prefix_def)
    moreover from par have "lookup fs (butlast p) \<noteq> None" by (simp add: is_dir_def)
    ultimately show ?thesis using assms(1) by (blast intro: wf_fs_ancestors)
  qed
  show ?thesis
    unfolding wf_fs_iff
  proof (intro allI impI)
    fix q a
    assume h: "lookup fs' q \<noteq> None \<and> strict_prefix a q"
    show "is_dir fs' a"
    proof (cases "q = p")
      case True
      with h have "is_dir fs a" by (simp add: anc)
      moreover from h True have "a \<noteq> p" by (auto simp: strict_prefix_def)
      ultimately show ?thesis
        by (simp add: is_dir_def lookup_write_file [OF assms(2)])
    next
      case False
      with h have "lookup fs q \<noteq> None" by (simp add: lookup_write_file [OF assms(2)])
      with assms(1) h have d: "is_dir fs a" by (blast intro: wf_fs_ancestors)
      with nd have "a \<noteq> p" by auto
      with d show ?thesis
        by (simp add: is_dir_def lookup_write_file [OF assms(2)])
    qed
  qed
qed

lemma wf_fs_write_partitioned:
  "wf_fs fs \<Longrightarrow> run (write_partitioned dest files) fs = Inr fs' \<Longrightarrow> wf_fs fs'"
proof (induction files arbitrary: fs)
  case Nil
  then show ?case by (simp add: write_partitioned_def)
next
  case (Cons f files)
  obtain rel c where f: "f = (rel, c)" by (cases f)
  from Cons.prems(2) obtain fs1 fs2 where
    1: "mkdir_parents (dest @ butlast rel) fs = Inr fs1"
    and 2: "write_file (dest @ rel) c fs1 = Inr fs2"
    and 3: "run (write_partitioned dest files) fs2 = Inr fs'"
    by (auto simp: write_partitioned_def f run_Cons_Inr simp del: run.simps(2))
  from Cons.prems(1) 1 have "wf_fs fs1" by (rule wf_fs_mkdir_parents)
  then have "wf_fs fs2" using 2 by (rule wf_fs_write_file)
  then show ?case using 3 by (rule Cons.IH)
qed

lemma write_partitioned_only_written:
  assumes "run (write_partitioned dest files) fs = Inr fs'"
    and "\<forall>q c. prefix dest q \<and> lookup fs q = Some (File c) \<longrightarrow>
                (\<exists>rel. (rel, c) \<in> W \<and> q = dest @ rel)"
    and "set files \<subseteq> W"
  shows "\<forall>q c. prefix dest q \<and> lookup fs' q = Some (File c) \<longrightarrow>
                (\<exists>rel. (rel, c) \<in> W \<and> q = dest @ rel)"
  using assms
proof (induction files arbitrary: fs)
  case Nil
  then show ?case by (simp add: write_partitioned_def)
next
  case (Cons f files)
  obtain rel c where f: "f = (rel, c)" by (cases f)
  from Cons.prems(1) obtain fs1 fs2 where
    1: "mkdir_parents (dest @ butlast rel) fs = Inr fs1"
    and 2: "write_file (dest @ rel) c fs1 = Inr fs2"
    and 3: "run (write_partitioned dest files) fs2 = Inr fs'"
    by (auto simp: write_partitioned_def f run_Cons_Inr simp del: run.simps(2))
  from Cons.prems(3) f have w: "(rel, c) \<in> W" and sub: "set files \<subseteq> W" by auto
  have i1: "\<forall>q c. prefix dest q \<and> lookup fs1 q = Some (File c) \<longrightarrow>
                (\<exists>rel. (rel, c) \<in> W \<and> q = dest @ rel)"
    using Cons.prems(2) by (auto simp: lookup_mkdir_parents [OF 1] split: if_splits)
  have i2: "\<forall>q c. prefix dest q \<and> lookup fs2 q = Some (File c) \<longrightarrow>
                (\<exists>rel. (rel, c) \<in> W \<and> q = dest @ rel)"
    using i1 w by (auto simp: lookup_write_file [OF 2] split: if_splits)
  from 3 i2 sub show ?case by (rule Cons.IH)
qed

lemma persist_only_written:
  assumes "wf_fs fs"
    and "run (clean_output_directory dest # write_partitioned dest files) fs = Inr fs'"
  shows "wf_fs fs' \<and> (\<forall>q c. prefix dest q \<and> lookup fs' q = Some (File c) \<longrightarrow>
                (\<exists>rel. (rel, c) \<in> set files \<and> q = dest @ rel))"
proof -
  from assms(2) obtain fs1 where
    1: "clean_output_directory dest fs = Inr fs1"
    and 2: "run (write_partitioned dest files) fs1 = Inr fs'"
    by (auto simp: run_Cons_Inr simp del: run.simps(2))
  have e: "\<forall>q c. prefix dest q \<and> lookup fs1 q = Some (File c) \<longrightarrow>
                (\<exists>rel. (rel, c) \<in> set files \<and> q = dest @ rel)"
    by (auto simp: lookup_clean_output_directory [OF assms(1) 1] split: if_splits)
  from wf_fs_clean_output_directory [OF assms(1) 1] 2 have "wf_fs fs'"
    by (rule wf_fs_write_partitioned)
  with write_partitioned_only_written [OF 2 e] show ?thesis by simp
qed

lemma gold_persist_result:
  assumes "wf_fs fs"
    and "run (gold_persist to_parquet to_csv df_gold dest) fs = Inr fs'"
    and "prefix dest q"
  shows "lookup fs' q =
           (if q = dest then Some Dir
            else if q = dest @ [''daily_stats.csv''] then Some (File (to_csv df_gold))
            else if q = dest @ [''daily_stats.parquet''] then Some (File (to_parquet df_gold))
            else None)"
    and "wf_fs fs'"
proof -
  from assms(2) obtain fs1 fs2 where
    1: "clean_output_directory dest fs = Inr fs1"
    and 2: "write_file (dest @ [''daily_stats.parquet'']) (to_parquet df_gold) fs1 = Inr fs2"
    and 3: "write_file (dest @ [''daily_stats.csv'']) (to_csv df_gold) fs2 = Inr fs'"
    by (auto simp: gold_persist_def Let_def run_Cons_Inr simp del: run.simps(2))
  show "lookup fs' q =
           (if q = dest then Some Dir
            else if q = dest @ [''daily_stats.csv''] then Some (File (to_csv df_gold))
            else if q = dest @ [''daily_stats.parquet''] then Some (File (to_parquet df_gold))
            else None)"
    using assms(3)
    by (simp add: lookup_write_file [OF 3] lookup_write_file [OF 2]
        lookup_clean_output_directory [OF assms(1) 1])
  from wf_fs_clean_output_directory [OF assms(1) 1] 2 have "wf_fs fs2"
    by (rule wf_fs_write_file)
  then show "wf_fs fs'" using 3 by (rule wf_fs_write_file)
qed

lemma process_silver_persist:
  "process_collisions L metric_cols parquet_c input_c dest fs = Inr ((df_c, p_c), fs')
   \<Longrightarrow> run (clean_output_directory dest
            # write_partitioned dest (parquet_c [''year'', ''month''] df_c)) fs = Inr fs'"
  "process_holidays L parquet_h input_h dest fs = Inr ((df_h, p_h), fs')
   \<Longrightarrow> run (clean_output_directory dest
            # write_partitioned dest (parquet_h [''year''] df_h)) fs = Inr fs'"
  "process_weather L parquet_w input_w dest fs = Inr ((df_w, p_w), fs')
   \<Longrightarrow> run (clean_output_directory dest
            # write_partitioned dest (parquet_w [''year'', ''month''] df_w)) fs = Inr fs'"
  by (auto simp: process_collisions_def process_holidays_def process_weather_def bind_err_def
      split: sum.splits simp del: run.simps)

text \<open>
  C9 (as amended). From a well-formed file system, a run of \<open>process_gold_data\<close> that
  returns leaves in the gold directory exactly the two files of this run, and a run of a
  silver transform that returns leaves in its output directory only files that this run
  wrote; the file system stays well formed.
\<close>

theorem C9_destination_replaced:
  "(wf_fs fs \<and> process_gold_data to_parquet to_csv cs hs ws dest fs = Inr fs' \<longrightarrow>
      wf_fs fs'
      \<and> (\<forall>q. prefix dest q \<longrightarrow>
            lookup fs' q =
              (if q = dest then Some Dir
               else if q = dest @ [''daily_stats.csv'']
                 then Some (File (to_csv (aggregate_stats (enrich_collisions cs hs ws))))
               else if q = dest @ [''daily_stats.parquet'']
                 then Some (File (to_parquet (aggregate_stats (enrich_collisions cs hs ws))))
               else None)))
   \<and> (wf_fs fs
       \<and> process_collisions L metric_cols parquet_c input_c dest fs = Inr ((df_c, p_c), fs') \<longrightarrow>
      wf_fs fs'
      \<and> (\<forall>q c. prefix dest q \<and> lookup fs' q = Some (File c) \<longrightarrow>
            (\<exists>rel. (rel, c) \<in> set (parquet_c [''year'', ''month''] df_c) \<and> q = dest @ rel)))
   \<and> (wf_fs fs \<and> process_holidays L parquet_h input_h dest fs = Inr ((df_h, p_h), fs') \<longrightarrow>
      wf_fs fs'
      \<and> (\<forall>q c. prefix dest q \<and> lookup fs' q = Some (File c) \<longrightarrow>
            (\<exists>rel. (rel, c) \<in> set (parquet_h [''year''] df_h) \<and> q = dest @ rel)))
   \<and> (wf_fs fs \<and> process_weather L parquet_w input_w dest fs = Inr ((df_w, p_w), fs') \<longrightarrow>
      wf_fs fs'
      \<and> (\<forall>q c. prefix dest q \<and> lookup fs' q = Some (File c) \<longrightarrow>
            (\<exists>rel. (rel, c) \<in> set (parquet_w [''year'', ''month''] df_w) \<and> q = dest @ rel)))"
proof (intro conjI impI)
  assume a: "wf_fs fs \<and> process_gold_data to_parquet to_csv cs hs ws dest fs = Inr fs'"
  then have r: "run (gold_persist to_parquet to_csv (aggregate_stats (enrich_collisions cs hs ws))
                    dest) fs = Inr fs'"
    by (simp add: process_gold_data_def Let_def)
  from a have w: "wf_fs fs" by simp
  show "wf_fs fs'"
    by (rule gold_persist_result(2) [OF w r prefix_order.refl])
  show "\<forall>q. prefix dest q \<longrightarrow>
            lookup fs' q =
              (if q = dest then Some Dir
               else if q = dest @ [''daily_stats.csv'']
                 then Some (File (to_csv (aggregate_stats (enrich_collisions cs hs ws))))
               else if q = dest @ [''daily_stats.parquet'']
                 then Some (File (to_parquet (aggregate_stats (enrich_collisions cs hs ws))))
               else None)"
    using gold_persist_result(1) [OF w r] by blast
next
  assume a: "wf_fs fs
       \<and> process_collisions L metric_cols parquet_c input_c dest fs = Inr ((df_c, p_c), fs')"
  from persist_only_written [OF _ process_silver_persist(1)] a
  have "wf_fs fs' \<and> (\<forall>q c. prefix dest q \<and> lookup fs' q = Some (File c) \<longrightarrow>
            (\<exists>rel. (rel, c) \<in> set (parquet_c [''year'', ''month''] df_c) \<and> q = dest @ rel))"
    by blast
  then show "wf_fs fs'" and "\<forall>q c. prefix dest q \<and> lookup fs' q = Some (File c) \<longrightarrow>
            (\<exists>rel. (rel, c) \<in> set (parquet_c [''year'', ''month''] df_c) \<and> q = dest @ rel)"
    by blast+
next
  assume a: "wf_fs fs \<and> process_holidays L parquet_h input_h dest fs = Inr ((df_h, p_h), fs')"
  from persist_only_written [OF _ process_silver_persist(2)] a
  have "wf_fs fs' \<and> (\<forall>q c. prefix dest q \<and> lookup fs' q = Some (File c) \<longrightarrow>
            (\<exists>rel. (rel, c) \<in> set (parquet_h [''year''] df_h) \<and> q = dest @ rel))"
    by blast
  then show "wf_fs fs'" and "\<forall>q c. prefix dest q \<and> lookup fs' q = Some (File c) \<longrightarrow>
            (\<exists>rel. (rel, c) \<in> set (parquet_h [''year''] df_h) \<and> q = dest @ rel)"
    by blast+
next
  assume a: "wf_fs fs \<and> process_weather L parquet_w input_w dest fs = Inr ((df_w, p_w), fs')"
  from persist_only_written [OF _ process_silver_persist(3)] a
  have "wf_fs fs' \<and> (\<forall>q c. prefix dest q \<and> lookup fs' q = Some (File c) \<longrightarrow>
            (\<exists>rel. (rel, c) \<in> set (parquet_w [''year'', ''month''] df_w) \<and> q = dest @ rel))"
    by blast
  then show "wf_fs fs'" and "\<forall>q c. prefix dest q \<and> lookup fs' q = Some (File c) \<longrightarrow>
            (\<exists>rel. (rel, c) \<in> set (parquet_w [''year'', ''month''] df_w) \<and> q = dest @ rel)"
    by blast+
qed

text \<open>A gold directory with a file of a previous run: after the run the file is gone.\<close>

theorem C9_destination_replaced_witness:
  "wf_fs stale_gold_fs
   \<and> lookup stale_gold_fs [''gold'', ''old_stats.parquet''] = Some (File (''parquet'', []))
   \<and> \<not> isl (process_gold_data (Pair ''parquet'') (Pair ''csv'')
               sample_collisions sample_holidays sample_weather [''gold''] stale_gold_fs)
   \<and> lookup (projr (process_gold_data (Pair ''parquet'') (Pair ''csv'')
               sample_collisions sample_holidays sample_weather [''gold''] stale_gold_fs))
        [''gold'', ''old_stats.parquet''] = None
   \<and> lookup (projr (process_gold_data (Pair ''parquet'') (Pair ''csv'')
               sample_collisions sample_holidays sample_weather [''gold''] stale_gold_fs))
        [''gold'', ''daily_stats.csv'']
       = Some (File (''csv'',
           aggregate_stats (enrich_collisions sample_collisions sample_holidays sample_weather)))"
proof -
  let ?G = "aggregate_stats (enrich_collisions sample_collisions sample_holidays sample_weather)"
  let ?F = "[([''gold''], Dir),
             ([''gold'', ''daily_stats.parquet''], File (''parquet'', ?G)),
             ([''gold'', ''daily_stats.csv''], File (''csv'', ?G))]"
  have w: "wf_fs stale_gold_fs"
    by code_simp
  have s: "lookup stale_gold_fs [''gold'', ''old_stats.parquet''] = Some (File (''parquet'', []))"
    by (simp add: stale_gold_fs_def lookup_def)
  have c: "clean_output_directory [''gold''] stale_gold_fs = Inr [([''gold''], Dir)]"
    by code_simp
  have run: "process_gold_data (Pair ''parquet'') (Pair ''csv'')
               sample_collisions sample_holidays sample_weather [''gold''] stale_gold_fs = Inr ?F"
    by (simp add: process_gold_data_def gold_persist_def Let_def c bind_err_def write_file_def
        is_dir_def lookup_def)
  from C9_destination_replaced [of stale_gold_fs "Pair ''parquet''" "Pair ''csv''"
      sample_collisions sample_holidays sample_weather "[''gold'']" ?F, THEN conjunct1] w run
  have "\<forall>q. prefix [''gold''] q \<longrightarrow>
            lookup ?F q =
              (if q = [''gold''] then Some Dir
               else if q = [''gold''] @ [''daily_stats.csv''] then Some (File (''csv'', ?G))
               else if q = [''gold''] @ [''daily_stats.parquet'']
                 then Some (File (''parquet'', ?G))
               else None)"
    by blast
  then have "lookup ?F [''gold'', ''old_stats.parquet''] = None
             \<and> lookup ?F [''gold'', ''daily_stats.csv''] = Some (File (''csv'', ?G))"
    by simp
  with w s show ?thesis
    unfolding run by simp
qed

text \<open>
  C9 as stated fails on atomicity: the replacement is three statements, and after the
  first of them the gold directory holds neither the file of the previous run nor a file
  of this run.
\<close>

theorem C9_counterexample:
  "lookup stale_gold_fs [''gold'', ''old_stats.parquet''] = Some (File (''parquet'', []))
   \<and> run (take 1 (gold_persist (Pair ''parquet'') (Pair ''csv'') [] [''gold''])) stale_gold_fs
       = Inr [([''gold''], Dir)]
   \<and> lookup [([''gold''], Dir) :: path \<times> (string \<times> fact list) node]
        [''gold'', ''old_stats.parquet''] = None
   \<and> lookup [([''gold''], Dir) :: path \<times> (string \<times> fact list) node]
        [''gold'', ''daily_stats.parquet''] = None
   \<and> process_gold_data (Pair ''parquet'') (Pair ''csv'') [] [] [] [''gold''] stale_gold_fs
       = Inr [([''gold''], Dir),
              ([''gold'', ''daily_stats.parquet''], File (''parquet'', [])),
              ([''gold'', ''daily_stats.csv''], File (''csv'', []))]"
  by code_simp

end
